theory Spec2Isabelle
  imports Main "HOL-Library.Word"
begin

section \<open>Data model of the dashboard controller\<close>

text \<open>
  The embedding follows \<^verbatim>\<open>controllers/dashboard_controller.go\<close>. Go's \<^verbatim>\<open>int64\<close>
  (folder identifiers, \<^verbatim>\<open>time.Duration\<close>) is a 64-bit word; the \<^verbatim>\<open>uint\<close> folder
  identifier of a search result is a 64-bit word too, so that the conversion
  \<^verbatim>\<open>int64(dashboard.FolderID)\<close> keeps the bits. The counter \<^verbatim>\<open>dashboardsSynced\<close> never
  exceeds the batch size and is a natural number.
\<close>

type_synonym int64 = "64 word"
type_synonym duration = "64 word"

text \<open>
  Go's \<^verbatim>\<open>error\<close> values. \<open>GoError\<close> is an error carrying only a message (\<^verbatim>\<open>errors.New\<close>,
  or whatever a collaborator returns); \<open>NotFound\<close> is the resource store's not-found
  status error, the one \<^verbatim>\<open>errors.IsNotFound\<close> recognises; \<open>InternalError\<close> and
  \<open>BadRequest\<close> are built by \<^verbatim>\<open>errors.NewInternalError\<close> and \<^verbatim>\<open>errors.NewBadRequest\<close>.
\<close>

datatype error =
    GoError string
  | NotFound string
  | InternalError error
  | BadRequest string

fun Error :: "error \<Rightarrow> string" where
  "Error (GoError m) = m"
| "Error (NotFound m) = m"
| "Error (InternalError e) = ''Internal error occurred: '' @ Error e"
| "Error (BadRequest m) = m"

fun IsNotFound :: "error \<Rightarrow> bool" where
  "IsNotFound (NotFound m) = True"
| "IsNotFound e = False"

text \<open>\<^verbatim>\<open>strings.HasPrefix\<close> and \<^verbatim>\<open>strings.Contains\<close>.\<close>

fun HasPrefix :: "string \<Rightarrow> string \<Rightarrow> bool" where
  "HasPrefix s [] = True"
| "HasPrefix [] (c # cs) = False"
| "HasPrefix (x # xs) (c # cs) = (x = c \<and> HasPrefix xs cs)"

fun Contains :: "string \<Rightarrow> string \<Rightarrow> bool" where
  "Contains [] sub = (sub = [])"
| "Contains (x # xs) sub = (HasPrefix (x # xs) sub \<or> Contains xs sub)"

text \<open>\<^verbatim>\<open>strconv.FormatInt(n, 10)\<close> on a 64-bit signed value.\<close>

definition digitChar :: "nat \<Rightarrow> char" where
  "digitChar d = ''0123456789'' ! d"

fun FormatNat :: "nat \<Rightarrow> string" where
  "FormatNat n = (if n < 10 then [digitChar n] else FormatNat (n div 10) @ [digitChar (n mod 10)])"

definition FormatInt :: "int64 \<Rightarrow> string" where
  "FormatInt n = (if sint n < 0 then CHR ''-'' # FormatNat (nat (- sint n)) else FormatNat (nat (sint n)))"

text \<open>
  Modelled from the spec: the type \<^verbatim>\<open>v1beta1.NamespacedResource\<close> and the methods
  \<^verbatim>\<open>Split\<close>, \<^verbatim>\<open>Find\<close>, \<^verbatim>\<open>Remove\<close> and \<^verbatim>\<open>Add\<close> of the tracked dashboard list live in the
  API package, which is not among the sources. The spec describes the list as an ordered
  collection of (namespace, name, backend-uid) triples with at most one entry per
  (namespace, name), appended to or updated by the convergence path.
\<close>

record NamespacedResource =
  nrNamespace :: string
  nrName :: string
  nrUID :: string

definition Split :: "NamespacedResource \<Rightarrow> string \<times> string \<times> string" where
  "Split d = (nrNamespace d, nrName d, nrUID d)"

fun Find :: "NamespacedResource list \<Rightarrow> string \<Rightarrow> string \<Rightarrow> string option" where
  "Find [] namespace name = None"
| "Find (d # ds) namespace name =
     (if nrNamespace d = namespace \<and> nrName d = name then Some (nrUID d) else Find ds namespace name)"

definition Remove :: "NamespacedResource list \<Rightarrow> string \<Rightarrow> string \<Rightarrow> NamespacedResource list" where
  "Remove ds namespace name = filter (\<lambda>d. \<not> (nrNamespace d = namespace \<and> nrName d = name)) ds"

definition Add :: "NamespacedResource list \<Rightarrow> string \<Rightarrow> string \<Rightarrow> string \<Rightarrow> NamespacedResource list" where
  "Add ds namespace name uid =
     Remove ds namespace name @ [\<lparr>nrNamespace = namespace, nrName = name, nrUID = uid\<rparr>]"

text \<open>
  The instance resource \<^verbatim>\<open>v1beta1.Grafana\<close>, with the fields the controller reads or
  writes: its identity, the two readiness fields of its status and the tracked
  dashboard list \<^verbatim>\<open>Status.Dashboards\<close>. The stage types are strings in Go; only the two
  values the controller compares with are named.
\<close>

datatype OperatorStage = OperatorStageComplete | OtherStage string
datatype OperatorStageStatus = OperatorStageResultSuccess | OtherStageStatus string

record Grafana =
  gNamespace :: string
  gName :: string
  Stage :: OperatorStage
  StageStatus :: OperatorStageStatus
  Dashboards :: "NamespacedResource list"

text \<open>The dashboard resource \<^verbatim>\<open>v1beta1.GrafanaDashboard\<close>.\<close>

type_synonym selector = "(string \<times> string) list"
type_synonym plugin = "string \<times> string"

datatype DashboardSourceType =
    DashboardSourceTypeRawJson
  | DashboardSourceTypeUrl
  | OtherSourceType string

record GrafanaDashboard =
  dNamespace :: string
  dName :: string
  UID :: string
  Json :: string
  Url :: string
  FolderTitle :: string
  InstanceSelector :: "selector option"
  Plugins :: "plugin list"
  StatusHash :: string

text \<open>
  Modelled from the spec: \<^verbatim>\<open>GrafanaDashboardList.Find\<close> (API package, not among the
  sources) looks a live resource up by namespace and name.
\<close>

fun FindDashboard :: "GrafanaDashboard list \<Rightarrow> string \<Rightarrow> string \<Rightarrow> GrafanaDashboard option" where
  "FindDashboard [] namespace name = None"
| "FindDashboard (d # ds) namespace name =
     (if dNamespace d = namespace \<and> dName d = name then Some d else FindDashboard ds namespace name)"

text \<open>The types of the backend client (\<^verbatim>\<open>grapi\<close>), \<^verbatim>\<open>net/http\<close> and \<^verbatim>\<open>ctrl\<close>.\<close>

datatype client = Client string

datatype json =
    JNull
  | JBool bool
  | JNumber int
  | JString string
  | JArray "json list"
  | JObject "(string \<times> json) list"

type_synonym jsonmap = "(string \<times> json) list"

fun setKey :: "jsonmap \<Rightarrow> string \<Rightarrow> json \<Rightarrow> jsonmap" where
  "setKey [] k v = [(k, v)]"
| "setKey ((k', v') # m) k v = (if k' = k then (k, v) # m else (k', v') # setKey m k v)"

record FolderDashboardSearchResponse =
  srUID :: string
  srFolderID :: int64

record DashboardMeta =
  IsStarred :: bool
  Slug :: string
  MetaFolder :: int64

record Dashboard =
  Meta :: DashboardMeta
  Model :: jsonmap
  Folder :: int64
  Overwrite :: bool
  Message :: string

record DashboardSaveResponse =
  respStatus :: string
  respUID :: string

record Folder_rec =
  ID :: int64
  Title :: string

record Response =
  Status :: string
  StatusCode :: int

record Result =
  Requeue :: bool
  RequeueAfter :: duration

type_synonym outcome = "Result \<times> error option"

section \<open>Collaborators and the call history\<close>

text \<open>
  Every call that leaves the controller (resource store, instance selector, plugin
  reconciler, content fetcher, backend client) is recorded, with its arguments, in a
  history of events. The history is the state the functions pass along: it is the only
  thing the controller changes outside its own variables.
\<close>

datatype event =
    CallListGrafanas
  | CallListDashboards
  | CallGet string string
  | CallGetMatchingInstances selector
  | CallReconcilePlugins Grafana "plugin list" string
  | CallNewGrafanaClient Grafana
  | CallFetchDashboardFromUrl GrafanaDashboard
  | CallDashboards client
  | CallDashboardByUID client string
  | CallNewDashboard client Dashboard
  | CallDeleteDashboardByUID client string
  | CallFolders client
  | CallNewFolder client string
  | CallDeleteFolder client string
  | CallStatusUpdateGrafana Grafana
  | CallStatusUpdateDashboard GrafanaDashboard

type_synonym history = "event list"

text \<open>
  The collaborators are parameters of the model. Each answers a call from the history
  of the calls made before it and the call's arguments, which covers every
  deterministic behaviour of the store and of the backends, failures included. A Go
  call returning \<^verbatim>\<open>(value, error)\<close> answers \<open>Inl\<close> the error or \<open>Inr\<close> the value; a call
  returning only an error answers \<open>None\<close> for \<^verbatim>\<open>nil\<close>. \<^verbatim>\<open>DashboardByUID\<close> keeps both
  components, because the deletion handler reads the returned pointer after an error
  it tolerates: \<open>None\<close> in the first component is the \<^verbatim>\<open>nil\<close> pointer.
  \<^verbatim>\<open>Status().Update\<close> on the dashboard resource also returns the object as the client
  leaves it in memory, since the resource is used again after the call. The other
  collaborators are taken not to modify the objects passed to them.

  The methods \<^verbatim>\<open>GetSourceTypes\<close>, \<^verbatim>\<open>Hash\<close> and \<^verbatim>\<open>GetResyncPeriod\<close> of the dashboard resource,
  the constant \<^verbatim>\<open>RequeueDelayError\<close> and \<^verbatim>\<open>json.Unmarshal\<close> are not among the sources and
  are parameters as well. \<^verbatim>\<open>json.Unmarshal\<close> into a map variable may leave the map \<^verbatim>\<open>nil\<close>
  without an error (\<open>Inr None\<close>).
\<close>

record env =
  k8sListGrafanas :: "history \<Rightarrow> error + Grafana list"
  k8sListDashboards :: "history \<Rightarrow> error + GrafanaDashboard list"
  k8sGet :: "history \<Rightarrow> string \<Rightarrow> string \<Rightarrow> error + GrafanaDashboard"
  k8sStatusUpdateGrafana :: "history \<Rightarrow> Grafana \<Rightarrow> error option"
  k8sStatusUpdateDashboard :: "history \<Rightarrow> GrafanaDashboard \<Rightarrow> error option \<times> GrafanaDashboard"
  getMatchingInstances :: "history \<Rightarrow> selector \<Rightarrow> error + Grafana list"
  reconcilePlugins :: "history \<Rightarrow> Grafana \<Rightarrow> plugin list \<Rightarrow> string \<Rightarrow> error option"
  newGrafanaClient :: "history \<Rightarrow> Grafana \<Rightarrow> error + client"
  fetchDashboardFromUrl :: "history \<Rightarrow> GrafanaDashboard \<Rightarrow> error + string"
  apiDashboards :: "history \<Rightarrow> client \<Rightarrow> error + FolderDashboardSearchResponse list"
  apiDashboardByUID :: "history \<Rightarrow> client \<Rightarrow> string \<Rightarrow> Dashboard option \<times> error option"
  apiNewDashboard :: "history \<Rightarrow> client \<Rightarrow> Dashboard \<Rightarrow> error + DashboardSaveResponse"
  apiDeleteDashboardByUID :: "history \<Rightarrow> client \<Rightarrow> string \<Rightarrow> error option"
  apiFolders :: "history \<Rightarrow> client \<Rightarrow> error + Folder_rec list"
  apiNewFolder :: "history \<Rightarrow> client \<Rightarrow> string \<Rightarrow> error + Folder_rec"
  apiDeleteFolder :: "history \<Rightarrow> client \<Rightarrow> string \<Rightarrow> error option"
  GetSourceTypes :: "GrafanaDashboard \<Rightarrow> DashboardSourceType list"
  Hash :: "GrafanaDashboard \<Rightarrow> string"
  GetResyncPeriod :: "GrafanaDashboard \<Rightarrow> duration"
  RequeueDelayError :: duration
  jsonUnmarshal :: "string \<Rightarrow> error + jsonmap option"

text \<open>Classes of events the properties count.\<close>

fun isDeleteDashboard :: "event \<Rightarrow> bool" where
  "isDeleteDashboard (CallDeleteDashboardByUID c u) = True"
| "isDeleteDashboard e = False"

fun isStatusUpdateGrafana :: "event \<Rightarrow> bool" where
  "isStatusUpdateGrafana (CallStatusUpdateGrafana g) = True"
| "isStatusUpdateGrafana e = False"

fun isStatusUpdate :: "event \<Rightarrow> bool" where
  "isStatusUpdate (CallStatusUpdateGrafana g) = True"
| "isStatusUpdate (CallStatusUpdateDashboard d) = True"
| "isStatusUpdate e = False"

fun isNewDashboard :: "event \<Rightarrow> bool" where
  "isNewDashboard (CallNewDashboard c d) = True"
| "isNewDashboard e = False"

fun isFolderCall :: "event \<Rightarrow> bool" where
  "isFolderCall (CallFolders c) = True"
| "isFolderCall (CallNewFolder c t) = True"
| "isFolderCall (CallDeleteFolder c i) = True"
| "isFolderCall e = False"

fun isBackendWrite :: "event \<Rightarrow> bool" where
  "isBackendWrite (CallNewDashboard c d) = True"
| "isBackendWrite (CallDeleteDashboardByUID c u) = True"
| "isBackendWrite (CallNewFolder c t) = True"
| "isBackendWrite (CallDeleteFolder c i) = True"
| "isBackendWrite e = False"

section \<open>The orphan sweep\<close>

definition syncBatchSize :: nat where
  "syncBatchSize = 100"

text \<open>
  The sweep groups the orphans in a map keyed by \<^verbatim>\<open>&grafana\<close>, the address of the
  variable of the \<^verbatim>\<open>range\<close> loop. What that address is depends on the language version
  the module declares, which is not among the sources: before Go 1.22 the loop has one
  variable, so the map has a single key, every orphan of every instance is appended
  under it, and the key points to the variable's last value, the last instance listed;
  from Go 1.22 each iteration has its own variable and the map has one key per instance
  with an orphan. Both are modelled, selected by a parameter. Go does not fix the order
  in which a map is iterated; the model visits the keys in the order of the instance
  list, and the auxiliary facts about the deletion loops hold for every work list.
\<close>

datatype loopvar = PerLoop | PerIteration

definition orphans :: "GrafanaDashboard list \<Rightarrow> Grafana \<Rightarrow> NamespacedResource list" where
  "orphans allDashboards grafana =
     filter (\<lambda>dashboard. FindDashboard allDashboards (nrNamespace dashboard) (nrName dashboard) = None)
       (Dashboards grafana)"

definition dashboardsToDelete ::
  "loopvar \<Rightarrow> Grafana list \<Rightarrow> GrafanaDashboard list \<Rightarrow> (Grafana \<times> NamespacedResource list) list" where
  "dashboardsToDelete lv grafanas allDashboards =
     (case lv of
        PerIteration \<Rightarrow>
          filter (\<lambda>(grafana, dashboards). dashboards \<noteq> [])
            (map (\<lambda>grafana. (grafana, orphans allDashboards grafana)) grafanas)
      | PerLoop \<Rightarrow>
          (let dashboards = concat (map (orphans allDashboards) grafanas)
           in if dashboards = [] then [] else [(last grafanas, dashboards)]))"

text \<open>
  The inner loop over the orphans of one map entry. \<open>Inl\<close> is a \<^verbatim>\<open>return\<close> from inside
  the loop, with the outcome returned; \<open>Inr\<close> is the loop running to its end, with the
  instance as modified in memory and the counter.
\<close>

fun deleteOrphans ::
  "env \<Rightarrow> client \<Rightarrow> NamespacedResource list \<Rightarrow> Grafana \<Rightarrow> nat \<Rightarrow> history
     \<Rightarrow> (outcome + Grafana \<times> nat) \<times> history" where
  "deleteOrphans e grafanaClient [] grafana dashboardsSynced h = (Inr (grafana, dashboardsSynced), h)"
| "deleteOrphans e grafanaClient (dashboard # dashboards) grafana dashboardsSynced h =
     (if dashboardsSynced \<ge> syncBatchSize
      then (Inl (\<lparr>Requeue = True, RequeueAfter = 0\<rparr>, None), h)
      else (case Split dashboard of (namespace, name, uid) \<Rightarrow>
        (case apiDeleteDashboardByUID e h grafanaClient uid of
           Some err \<Rightarrow>
             (Inl (\<lparr>Requeue = False, RequeueAfter = 0\<rparr>, Some err),
              h @ [CallDeleteDashboardByUID grafanaClient uid])
         | None \<Rightarrow>
             deleteOrphans e grafanaClient dashboards
               (grafana\<lparr>Dashboards := Remove (Dashboards grafana) namespace name\<rparr>)
               (dashboardsSynced + 1)
               (h @ [CallDeleteDashboardByUID grafanaClient uid]))))"

text \<open>The outer loop over the map entries.\<close>

fun deleteAll ::
  "env \<Rightarrow> (Grafana \<times> NamespacedResource list) list \<Rightarrow> nat \<Rightarrow> history
     \<Rightarrow> (outcome + nat) \<times> history" where
  "deleteAll e [] dashboardsSynced h = (Inr dashboardsSynced, h)"
| "deleteAll e ((grafana, dashboards) # rest) dashboardsSynced h =
     (case newGrafanaClient e h grafana of
        Inl err \<Rightarrow> (Inl (\<lparr>Requeue = True, RequeueAfter = 0\<rparr>, Some err), h @ [CallNewGrafanaClient grafana])
      | Inr grafanaClient \<Rightarrow>
         (case deleteOrphans e grafanaClient dashboards grafana dashboardsSynced
                 (h @ [CallNewGrafanaClient grafana]) of
            (Inl out, h1) \<Rightarrow> (Inl out, h1)
          | (Inr (grafana', synced), h1) \<Rightarrow>
             (case k8sStatusUpdateGrafana e h1 grafana' of
                Some err \<Rightarrow>
                  (Inl (\<lparr>Requeue = False, RequeueAfter = 0\<rparr>, Some err),
                   h1 @ [CallStatusUpdateGrafana grafana'])
              | None \<Rightarrow> deleteAll e rest synced (h1 @ [CallStatusUpdateGrafana grafana']))))"

definition syncDashboards :: "loopvar \<Rightarrow> env \<Rightarrow> history \<Rightarrow> outcome \<times> history" where
  "syncDashboards lv e h =
     (case k8sListGrafanas e h of
        Inl err \<Rightarrow> ((\<lparr>Requeue = True, RequeueAfter = 0\<rparr>, Some err), h @ [CallListGrafanas])
      | Inr grafanas \<Rightarrow>
          if length grafanas = 0
          then ((\<lparr>Requeue = False, RequeueAfter = 0\<rparr>, None), h @ [CallListGrafanas])
          else (case k8sListDashboards e (h @ [CallListGrafanas]) of
                  Inl err \<Rightarrow>
                    ((\<lparr>Requeue = True, RequeueAfter = 0\<rparr>, Some err),
                     h @ [CallListGrafanas, CallListDashboards])
                | Inr allDashboards \<Rightarrow>
                    (case deleteAll e (dashboardsToDelete lv grafanas allDashboards) 0
                            (h @ [CallListGrafanas, CallListDashboards]) of
                       (Inl out, h') \<Rightarrow> (out, h')
                     | (Inr synced, h') \<Rightarrow> ((\<lparr>Requeue = False, RequeueAfter = 0\<rparr>, None), h'))))"

section \<open>Folders\<close>

text \<open>The loop of \<^verbatim>\<open>GetFolderID\<close>: the identifier of the first folder with the title, else 0.\<close>

fun findFolderID :: "Folder_rec list \<Rightarrow> string \<Rightarrow> int64" where
  "findFolderID [] title = 0"
| "findFolderID (folder # folders) title =
     (if Title folder = title then ID folder else findFolderID folders title)"

definition GetFolderID :: "env \<Rightarrow> client \<Rightarrow> GrafanaDashboard \<Rightarrow> history \<Rightarrow> (error + int64) \<times> history" where
  "GetFolderID e c cr h =
     (case apiFolders e h c of
        Inl err \<Rightarrow> (Inl err, h @ [CallFolders c])
      | Inr folders \<Rightarrow> (Inr (findFolderID folders (FolderTitle cr)), h @ [CallFolders c]))"

definition GetOrCreateFolder ::
  "env \<Rightarrow> client \<Rightarrow> GrafanaDashboard \<Rightarrow> history \<Rightarrow> (error + int64) \<times> history" where
  "GetOrCreateFolder e c cr h =
     (if FolderTitle cr = [] then (Inr 0, h)
      else (case GetFolderID e c cr h of
              (Inl err, h1) \<Rightarrow> (Inl err, h1)
            | (Inr folderID, h1) \<Rightarrow>
                if folderID \<noteq> 0 then (Inr folderID, h1)
                else (case apiNewFolder e h1 c (FolderTitle cr) of
                        Inl err \<Rightarrow> (Inl err, h1 @ [CallNewFolder c (FolderTitle cr)])
                      | Inr resp \<Rightarrow> (Inr (ID resp), h1 @ [CallNewFolder c (FolderTitle cr)]))))"

text \<open>The loop of \<^verbatim>\<open>DeleteFolderIfEmpty\<close>: does a listed dashboard sit in the folder?\<close>

fun folderInUse :: "FolderDashboardSearchResponse list \<Rightarrow> int64 \<Rightarrow> bool" where
  "folderInUse [] folderID = False"
| "folderInUse (dashboard # dashboards) folderID =
     (if srFolderID dashboard = folderID then True else folderInUse dashboards folderID)"

definition DeleteFolderIfEmpty ::
  "env \<Rightarrow> client \<Rightarrow> int64 \<Rightarrow> history \<Rightarrow> (Response \<times> error option) \<times> history" where
  "DeleteFolderIfEmpty e c folderID h =
     (case apiDashboards e h c of
        Inl err \<Rightarrow>
          ((\<lparr>Status = ''internal grafana client error getting dashboards'', StatusCode = 500\<rparr>, Some err),
           h @ [CallDashboards c])
      | Inr dashboards \<Rightarrow>
          if folderInUse dashboards folderID
          then ((\<lparr>Status = ''resource is still in use'', StatusCode = 423\<rparr>, None), h @ [CallDashboards c])
          else (case apiDeleteFolder e (h @ [CallDashboards c]) c (FormatInt folderID) of
                  Some err \<Rightarrow>
                    ((\<lparr>Status = ''internal grafana client error deleting grafana folder'', StatusCode = 500\<rparr>,
                      Some err),
                     h @ [CallDashboards c, CallDeleteFolder c (FormatInt folderID)])
                | None \<Rightarrow>
                    ((\<lparr>Status = ''grafana folder deleted'', StatusCode = 200\<rparr>, None),
                     h @ [CallDashboards c, CallDeleteFolder c (FormatInt folderID)])))"

section \<open>Convergence of one dashboard on one instance\<close>

text \<open>
  A function that can panic returns \<open>Panic\<close> instead of a value; a panic unwinds through
  every caller.
\<close>

datatype 'a exec = Return 'a | Panic string

definition fetchDashboardJson :: "env \<Rightarrow> GrafanaDashboard \<Rightarrow> history \<Rightarrow> (error + string) \<times> history" where
  "fetchDashboardJson e dashboard h =
     (let sourceTypes = GetSourceTypes e dashboard in
      if length sourceTypes = 0
      then (Inl (GoError (''no source type provided for dashboard '' @ dName dashboard)), h)
      else if length sourceTypes > 1
      then (Inl (GoError (''more than one source types found for dashboard '' @ dName dashboard)), h)
      else (case sourceTypes ! 0 of
              DashboardSourceTypeRawJson \<Rightarrow> (Inr (Json dashboard), h)
            | DashboardSourceTypeUrl \<Rightarrow>
                (fetchDashboardFromUrl e h dashboard, h @ [CallFetchDashboardFromUrl dashboard])
            | OtherSourceType s \<Rightarrow>
                (Inl (GoError (''unknown source type '' @ s @ '' found in dashboard '' @ dName dashboard)), h)))"

text \<open>
  Modelled from the spec: \<^verbatim>\<open>Unchanged\<close> (API package, not among the sources) compares
  the hash recorded in the status with the hash of the resource as it now is, that
  is, after \<^verbatim>\<open>Spec.Json\<close> has been set to the freshly resolved content.
\<close>

definition Unchanged :: "env \<Rightarrow> GrafanaDashboard \<Rightarrow> bool" where
  "Unchanged e cr = (Hash e cr = StatusHash cr)"

definition UpdateStatus ::
  "env \<Rightarrow> GrafanaDashboard \<Rightarrow> history \<Rightarrow> (error option \<times> GrafanaDashboard) \<times> history" where
  "UpdateStatus e cr h =
     (let cr1 = cr\<lparr>StatusHash := Hash e cr\<rparr>
      in (k8sStatusUpdateDashboard e h cr1, h @ [CallStatusUpdateDashboard cr1]))"

fun hasUID :: "FolderDashboardSearchResponse list \<Rightarrow> string \<Rightarrow> bool" where
  "hasUID [] uid = False"
| "hasUID (dashboard # dashboards) uid = (if srUID dashboard = uid then True else hasUID dashboards uid)"

definition Exists :: "env \<Rightarrow> client \<Rightarrow> GrafanaDashboard \<Rightarrow> history \<Rightarrow> (error + bool) \<times> history" where
  "Exists e c cr h =
     (case apiDashboards e h c of
        Inl err \<Rightarrow> (Inl err, h @ [CallDashboards c])
      | Inr dashboards \<Rightarrow> (Inr (hasUID dashboards (UID cr)), h @ [CallDashboards c]))"

text \<open>
  \<^verbatim>\<open>onDashboardCreated\<close>, in two parts: \<open>writeDashboard\<close> is the function's body after
  the test \<^verbatim>\<open>exists && cr.Unchanged()\<close>. Both return the outcome together with the
  instance and the dashboard resource as the call leaves them in memory.
\<close>

definition writeDashboard ::
  "env \<Rightarrow> client \<Rightarrow> string \<Rightarrow> Grafana \<Rightarrow> GrafanaDashboard \<Rightarrow> history
     \<Rightarrow> (error option exec \<times> Grafana \<times> GrafanaDashboard) \<times> history" where
  "writeDashboard e grafanaClient dashboardJson grafana cr h =
     (case jsonUnmarshal e dashboardJson of
        Inl err \<Rightarrow> ((Return (Some err), grafana, cr), h)
      | Inr dashboardFromJson \<Rightarrow>
         (case GetOrCreateFolder e grafanaClient cr h of
            (Inl err, h1) \<Rightarrow> ((Return (Some (InternalError err)), grafana, cr), h1)
          | (Inr folderID, h1) \<Rightarrow>
             (case dashboardFromJson of
                None \<Rightarrow> ((Panic ''assignment to entry in nil map'', grafana, cr), h1)
              | Some m \<Rightarrow>
                 (let dashboard =
                        \<lparr>Meta = \<lparr>IsStarred = False, Slug = dName cr, MetaFolder = folderID\<rparr>,
                         Model = setKey m ''uid'' (JString (UID cr)),
                         Folder = 0, Overwrite = True, Message = []\<rparr>;
                      h2 = h1 @ [CallNewDashboard grafanaClient dashboard]
                  in case apiNewDashboard e h1 grafanaClient dashboard of
                       Inl err \<Rightarrow> ((Return (Some err), grafana, cr), h2)
                     | Inr resp \<Rightarrow>
                        if respStatus resp \<noteq> ''success''
                        then ((Return (Some (BadRequest
                                 (''error creating dashboard, status was '' @ respStatus resp))),
                               grafana, cr), h2)
                        else (let grafana1 = grafana\<lparr>Dashboards :=
                                     Add (Dashboards grafana) (dNamespace cr) (dName cr) (respUID resp)\<rparr>;
                                  h3 = h2 @ [CallStatusUpdateGrafana grafana1]
                              in case k8sStatusUpdateGrafana e h2 grafana1 of
                                   Some err \<Rightarrow> ((Return (Some err), grafana1, cr), h3)
                                 | None \<Rightarrow>
                                    (case UpdateStatus e cr h3 of
                                       ((err, cr1), h4) \<Rightarrow> ((Return err, grafana1, cr1), h4)))))))"

definition onDashboardCreated ::
  "env \<Rightarrow> Grafana \<Rightarrow> GrafanaDashboard \<Rightarrow> history
     \<Rightarrow> (error option exec \<times> Grafana \<times> GrafanaDashboard) \<times> history" where
  "onDashboardCreated e grafana cr h =
     (case fetchDashboardJson e cr h of
        (Inl err, h1) \<Rightarrow> ((Return (Some err), grafana, cr), h1)
      | (Inr dashboardJson, h1) \<Rightarrow>
         (let cr1 = cr\<lparr>Json := dashboardJson\<rparr>
          in case newGrafanaClient e h1 grafana of
               Inl err \<Rightarrow> ((Return (Some err), grafana, cr1), h1 @ [CallNewGrafanaClient grafana])
             | Inr grafanaClient \<Rightarrow>
                (case Exists e grafanaClient cr1 (h1 @ [CallNewGrafanaClient grafana]) of
                   (Inl err, h2) \<Rightarrow> ((Return (Some err), grafana, cr1), h2)
                 | (Inr exists, h2) \<Rightarrow>
                    if exists \<and> Unchanged e cr1 then ((Return None, grafana, cr1), h2)
                    else writeDashboard e grafanaClient dashboardJson grafana cr1 h2)))"

section \<open>The deletion handler\<close>

text \<open>
  The body of the loop of \<^verbatim>\<open>onDashboardDeleted\<close> for an instance that tracks the
  resource under \<open>uid\<close>, in two parts: \<open>deleteDashboardAndFolder\<close> is the body from the
  statement \<^verbatim>\<open>folderID := dash.Folder\<close> on, with the pointer \<^verbatim>\<open>dash\<close> as its argument.
  \<open>Inl\<close> is a \<^verbatim>\<open>return\<close> from inside the loop or a panic, \<open>Inr\<close> the body running to its
  end. Reading a field through the \<^verbatim>\<open>nil\<close> pointer panics.
\<close>

definition deleteDashboardAndFolder ::
  "env \<Rightarrow> string \<Rightarrow> string \<Rightarrow> Grafana \<Rightarrow> client \<Rightarrow> string \<Rightarrow> Dashboard option \<Rightarrow> history
     \<Rightarrow> (error exec + unit) \<times> history" where
  "deleteDashboardAndFolder e namespace name grafana grafanaClient uid dash h =
     (case dash of
        None \<Rightarrow> (Inl (Panic ''invalid memory address or nil pointer dereference''), h)
      | Some d \<Rightarrow>
         (let folderID = Folder d;
              h1 = h @ [CallDeleteDashboardByUID grafanaClient uid];
              derr = apiDeleteDashboardByUID e h grafanaClient uid
          in if (case derr of None \<Rightarrow> False | Some err \<Rightarrow> \<not> Contains (Error err) ''status: 404'')
             then (Inl (Return (the derr)), h1)
             else (case DeleteFolderIfEmpty e grafanaClient folderID h1 of
                     ((resp, Some err), h2) \<Rightarrow> (Inl (Return err), h2)
                   | ((resp, None), h2) \<Rightarrow>
                      (let h3 = h2 @ [CallReconcilePlugins grafana [] (name @ ''-dashboard'')]
                       in case reconcilePlugins e h2 grafana [] (name @ ''-dashboard'') of
                            Some err \<Rightarrow> (Inl (Return err), h3)
                          | None \<Rightarrow>
                             (let grafana1 = grafana\<lparr>Dashboards := Remove (Dashboards grafana) namespace name\<rparr>
                              in case k8sStatusUpdateGrafana e h3 grafana1 of
                                   Some err \<Rightarrow> (Inl (Return err), h3 @ [CallStatusUpdateGrafana grafana1])
                                 | None \<Rightarrow> (Inr (), h3 @ [CallStatusUpdateGrafana grafana1]))))))"

definition deleteFromInstance ::
  "env \<Rightarrow> string \<Rightarrow> string \<Rightarrow> Grafana \<Rightarrow> string \<Rightarrow> history \<Rightarrow> (error exec + unit) \<times> history" where
  "deleteFromInstance e namespace name grafana uid h =
     (case newGrafanaClient e h grafana of
        Inl err \<Rightarrow> (Inl (Return err), h @ [CallNewGrafanaClient grafana])
      | Inr grafanaClient \<Rightarrow>
         (let h1 = h @ [CallNewGrafanaClient grafana];
              h2 = h1 @ [CallDashboardByUID grafanaClient uid]
          in case apiDashboardByUID e h1 grafanaClient uid of
               (dash, err) \<Rightarrow>
                 if (case err of None \<Rightarrow> False | Some err' \<Rightarrow> \<not> Contains (Error err') ''status: 404'')
                 then (Inl (Return (the err)), h2)
                 else deleteDashboardAndFolder e namespace name grafana grafanaClient uid dash h2))"

fun deleteFromInstances ::
  "env \<Rightarrow> string \<Rightarrow> string \<Rightarrow> Grafana list \<Rightarrow> history \<Rightarrow> error option exec \<times> history" where
  "deleteFromInstances e namespace name [] h = (Return None, h)"
| "deleteFromInstances e namespace name (grafana # rest) h =
     (case Find (Dashboards grafana) namespace name of
        None \<Rightarrow> deleteFromInstances e namespace name rest h
      | Some uid \<Rightarrow>
         (case deleteFromInstance e namespace name grafana uid h of
            (Inl (Return err), h1) \<Rightarrow> (Return (Some err), h1)
          | (Inl (Panic p), h1) \<Rightarrow> (Panic p, h1)
          | (Inr u, h1) \<Rightarrow> deleteFromInstances e namespace name rest h1))"

definition onDashboardDeleted :: "env \<Rightarrow> string \<Rightarrow> string \<Rightarrow> history \<Rightarrow> error option exec \<times> history" where
  "onDashboardDeleted e namespace name h =
     (case k8sListGrafanas e h of
        Inl err \<Rightarrow> (Return (Some err), h @ [CallListGrafanas])
      | Inr items \<Rightarrow> deleteFromInstances e namespace name items (h @ [CallListGrafanas]))"

section \<open>Reconcile\<close>

record Request =
  reqNamespace :: string
  reqName :: string

text \<open>
  The loop of \<^verbatim>\<open>Reconcile\<close> over the matching instances. The dashboard resource is one
  object shared by all iterations, so it is passed from one to the next.
\<close>

fun reconcileInstances ::
  "env \<Rightarrow> Grafana list \<Rightarrow> GrafanaDashboard \<Rightarrow> bool \<Rightarrow> history
     \<Rightarrow> (bool \<times> GrafanaDashboard) exec \<times> history" where
  "reconcileInstances e [] dashboard success h = (Return (success, dashboard), h)"
| "reconcileInstances e (grafana # rest) dashboard success h =
     (if Stage grafana \<noteq> OperatorStageComplete \<or> StageStatus grafana \<noteq> OperatorStageResultSuccess
      then reconcileInstances e rest dashboard False h
      else (let tag = dName dashboard @ ''-dashboard'';
                h1 = h @ [CallReconcilePlugins grafana (Plugins dashboard) tag];
                success1 = (case reconcilePlugins e h grafana (Plugins dashboard) tag of
                              Some err \<Rightarrow> False | None \<Rightarrow> success)
            in case onDashboardCreated e grafana dashboard h1 of
                 ((Panic p, grafana', dashboard'), h2) \<Rightarrow> (Panic p, h2)
               | ((Return (Some err), grafana', dashboard'), h2) \<Rightarrow>
                    reconcileInstances e rest dashboard' False h2
               | ((Return None, grafana', dashboard'), h2) \<Rightarrow>
                    reconcileInstances e rest dashboard' success1 h2))"

definition Reconcile :: "loopvar \<Rightarrow> env \<Rightarrow> Request \<Rightarrow> history \<Rightarrow> outcome exec \<times> history" where
  "Reconcile lv e req h =
     (if reqNamespace req = [] \<and> reqName req = []
      then (case syncDashboards lv e h of (syncResult, h') \<Rightarrow> (Return syncResult, h'))
      else (let h1 = h @ [CallGet (reqNamespace req) (reqName req)]
            in case k8sGet e h (reqNamespace req) (reqName req) of
                 Inl err \<Rightarrow>
                   if IsNotFound err
                   then (case onDashboardDeleted e (reqNamespace req) (reqName req) h1 of
                           (Panic p, h2) \<Rightarrow> (Panic p, h2)
                         | (Return (Some err'), h2) \<Rightarrow>
                             (Return (\<lparr>Requeue = False, RequeueAfter = RequeueDelayError e\<rparr>, Some err'), h2)
                         | (Return None, h2) \<Rightarrow>
                             (Return (\<lparr>Requeue = False, RequeueAfter = 0\<rparr>, None), h2))
                   else (Return (\<lparr>Requeue = False, RequeueAfter = RequeueDelayError e\<rparr>, Some err), h1)
               | Inr dashboard \<Rightarrow>
                  (case InstanceSelector dashboard of
                     None \<Rightarrow> (Return (\<lparr>Requeue = False, RequeueAfter = RequeueDelayError e\<rparr>, None), h1)
                   | Some instanceSelector \<Rightarrow>
                      (let h2 = h1 @ [CallGetMatchingInstances instanceSelector]
                       in case getMatchingInstances e h1 instanceSelector of
                            Inl err \<Rightarrow>
                              (Return (\<lparr>Requeue = False, RequeueAfter = RequeueDelayError e\<rparr>, Some err), h2)
                          | Inr instances \<Rightarrow>
                             if length instances = 0
                             then (Return (\<lparr>Requeue = False, RequeueAfter = 0\<rparr>, None), h2)
                             else (case reconcileInstances e instances dashboard True h2 of
                                     (Panic p, h3) \<Rightarrow> (Panic p, h3)
                                   | (Return (success, dashboard'), h3) \<Rightarrow>
                                       if success
                                       then (Return (\<lparr>Requeue = False,
                                                       RequeueAfter = GetResyncPeriod e dashboard'\<rparr>, None), h3)
                                       else (Return (\<lparr>Requeue = False,
                                                       RequeueAfter = RequeueDelayError e\<rparr>, None), h3))))))"

section \<open>Auxiliary notions for the properties\<close>

text \<open>
  Every call the sweep makes after its two list calls succeeds: a client can be built
  for every instance, the backend accepts every dashboard deletion and the store
  accepts every instance status update.
\<close>

definition sweepCallsSucceed :: "env \<Rightarrow> bool" where
  "sweepCallsSucceed e =
     ((\<forall>h g. \<exists>c. newGrafanaClient e h g = Inr c) \<and>
      (\<forall>h c u. apiDeleteDashboardByUID e h c u = None) \<and>
      (\<forall>h g. k8sStatusUpdateGrafana e h g = None))"

text \<open>The statement of the sweep's inner loop that drops a tracked entry in memory.\<close>

definition removeTracked :: "Grafana \<Rightarrow> NamespacedResource \<Rightarrow> Grafana" where
  "removeTracked g d = g\<lparr>Dashboards := Remove (Dashboards g) (nrNamespace d) (nrName d)\<rparr>"

text \<open>
  One iteration of the loop of \<^verbatim>\<open>Reconcile\<close> leaves the flag \<^verbatim>\<open>success\<close> alone: the
  instance is ready, plugin reconciliation returns no error and \<^verbatim>\<open>onDashboardCreated\<close>
  returns \<^verbatim>\<open>nil\<close>.
\<close>

definition instanceSucceeds :: "env \<Rightarrow> Grafana \<Rightarrow> GrafanaDashboard \<Rightarrow> history \<Rightarrow> bool" where
  "instanceSucceeds e grafana dashboard h =
     (Stage grafana = OperatorStageComplete \<and> StageStatus grafana = OperatorStageResultSuccess \<and>
      reconcilePlugins e h grafana (Plugins dashboard) (dName dashboard @ ''-dashboard'') = None \<and>
      fst (fst (onDashboardCreated e grafana dashboard
             (h @ [CallReconcilePlugins grafana (Plugins dashboard) (dName dashboard @ ''-dashboard'')])))
        = Return None)"

text \<open>An instance status write that records an entry of the tracked list of a given instance.\<close>

definition addsEntry :: "Grafana list \<Rightarrow> event \<Rightarrow> bool" where
  "addsEntry instances ev =
     (case ev of
        CallStatusUpdateGrafana g1 \<Rightarrow>
          (\<exists>g \<in> set instances. \<exists>namespace name uid.
             g1 = g\<lparr>Dashboards := Add (Dashboards g) namespace name uid\<rparr> \<and>
             Find (Dashboards g1) namespace name = Some uid)
      | _ \<Rightarrow> True)"

section \<open>Concrete collaborators\<close>

text \<open>
  A store and backends that accept everything: no instance, no dashboard, empty
  backends, every call succeeding. The concrete scenarios below override single
  collaborators. The digest is the identity on the content, and the backend answers a
  dashboard write with the UID found in the model written.
\<close>

definition uidOf :: "Dashboard \<Rightarrow> string" where
  "uidOf d = (case map_of (Model d) ''uid'' of Some (JString u) \<Rightarrow> u | _ \<Rightarrow> [])"

definition quietEnv :: env where
  "quietEnv =
     \<lparr>k8sListGrafanas = (\<lambda>h. Inr []),
      k8sListDashboards = (\<lambda>h. Inr []),
      k8sGet = (\<lambda>h namespace name. Inl (NotFound ''not found'')),
      k8sStatusUpdateGrafana = (\<lambda>h g. None),
      k8sStatusUpdateDashboard = (\<lambda>h d. (None, d)),
      getMatchingInstances = (\<lambda>h s. Inr []),
      reconcilePlugins = (\<lambda>h g ps t. None),
      newGrafanaClient = (\<lambda>h g. Inr (Client (gName g))),
      fetchDashboardFromUrl = (\<lambda>h d. Inr ''{}''),
      apiDashboards = (\<lambda>h c. Inr []),
      apiDashboardByUID = (\<lambda>h c u.
        (Some \<lparr>Meta = \<lparr>IsStarred = False, Slug = [], MetaFolder = 0\<rparr>, Model = [], Folder = 0,
               Overwrite = False, Message = []\<rparr>, None)),
      apiNewDashboard = (\<lambda>h c d. Inr \<lparr>respStatus = ''success'', respUID = uidOf d\<rparr>),
      apiDeleteDashboardByUID = (\<lambda>h c u. None),
      apiFolders = (\<lambda>h c. Inr []),
      apiNewFolder = (\<lambda>h c t. Inr \<lparr>ID = 1, Title = t\<rparr>),
      apiDeleteFolder = (\<lambda>h c i. None),
      GetSourceTypes = (\<lambda>d. [DashboardSourceTypeRawJson]),
      Hash = Json,
      GetResyncPeriod = (\<lambda>d. 300000000000),
      RequeueDelayError = 10000000000,
      jsonUnmarshal = (\<lambda>s. Inr (Some []))\<rparr>"

definition tracked :: "nat \<Rightarrow> NamespacedResource" where
  "tracked k = \<lparr>nrNamespace = ''monitoring'', nrName = ''dash-'' @ FormatNat k, nrUID = ''uid-'' @ FormatNat k\<rparr>"

definition instance_with :: "string \<Rightarrow> NamespacedResource list \<Rightarrow> Grafana" where
  "instance_with name ds =
     \<lparr>gNamespace = ''grafana'', gName = name, Stage = OperatorStageComplete,
      StageStatus = OperatorStageResultSuccess, Dashboards = ds\<rparr>"

definition err404 :: error where
  "err404 = GoError ''status: 404, body: Dashboard not found''"

text \<open>Two instances tracking 120 and 130 dashboards, 250 in all, and no dashboard resource left.\<close>

definition sweepEnv250 :: env where
  "sweepEnv250 = quietEnv\<lparr>k8sListGrafanas :=
      (\<lambda>h. Inr [instance_with ''a'' (map tracked [0..<120]), instance_with ''b'' (map tracked [120..<250])])\<rparr>"

text \<open>Two instances tracking 20 and 30 dashboards, and no dashboard resource left.\<close>

definition sweepEnv50 :: env where
  "sweepEnv50 = quietEnv\<lparr>k8sListGrafanas :=
      (\<lambda>h. Inr [instance_with ''a'' (map tracked [0..<20]), instance_with ''b'' (map tracked [20..<50])])\<rparr>"

text \<open>One instance tracking 101 dashboards, and no dashboard resource left.\<close>

definition sweepEnv101 :: env where
  "sweepEnv101 = quietEnv\<lparr>k8sListGrafanas := (\<lambda>h. Inr [instance_with ''a'' (map tracked [0..<101])])\<rparr>"

text \<open>
  One instance tracking one dashboard whose resource is gone and which the backend no
  longer has: the deletion is answered with a 404 error.
\<close>

definition sweepEnv404 :: env where
  "sweepEnv404 = quietEnv\<lparr>k8sListGrafanas := (\<lambda>h. Inr [instance_with ''a'' [tracked 0]]),
                           apiDeleteDashboardByUID := (\<lambda>h c u. Some err404)\<rparr>"

text \<open>A backend whose only dashboard sits in the folder with identifier 0.\<close>

definition folderZeroInUseEnv :: env where
  "folderZeroInUseEnv = quietEnv\<lparr>apiDashboards := (\<lambda>h c. Inr [\<lparr>srUID = ''uid-1'', srFolderID = 0\<rparr>])\<rparr>"

text \<open>A backend whose folder \<open>General\<close> has the identifier 0.\<close>

definition folderZeroEnv :: env where
  "folderZeroEnv = quietEnv\<lparr>apiFolders := (\<lambda>h c. Inr [\<lparr>ID = 0, Title = ''General''\<rparr>])\<rparr>"

text \<open>
  A dashboard resource with inline content, whose recorded hash is the hash of that
  content.
\<close>

definition dashboardCR :: GrafanaDashboard where
  "dashboardCR =
     \<lparr>dNamespace = ''monitoring'', dName = ''dash-0'', UID = ''uid-0'', Json = ''{}'', Url = [],
      FolderTitle = ''General'', InstanceSelector = Some [(''dashboards'', ''grafana'')], Plugins = [],
      StatusHash = ''{}''\<rparr>"

text \<open>A backend that already lists the dashboard with the UID of \<open>dashboardCR\<close>.\<close>

definition convergedEnv :: env where
  "convergedEnv = quietEnv\<lparr>apiDashboards := (\<lambda>h c. Inr [\<lparr>srUID = ''uid-0'', srFolderID = 0\<rparr>])\<rparr>"

text \<open>The request for \<open>dashboardCR\<close>.\<close>

definition request :: Request where
  "request = \<lparr>reqNamespace = ''monitoring'', reqName = ''dash-0''\<rparr>"

text \<open>
  A store holding \<open>dashboardCR\<close> and one ready instance matching it, where the resource
  declares no content source; and collaborators for which it declares two.
\<close>

definition noSourceEnv :: env where
  "noSourceEnv = quietEnv\<lparr>GetSourceTypes := (\<lambda>d. []),
                           k8sGet := (\<lambda>h namespace name. Inr dashboardCR),
                           getMatchingInstances := (\<lambda>h s. Inr [instance_with ''a'' []])\<rparr>"

definition twoSourcesEnv :: env where
  "twoSourcesEnv = quietEnv\<lparr>GetSourceTypes := (\<lambda>d. [DashboardSourceTypeRawJson, DashboardSourceTypeUrl])\<rparr>"

text \<open>
  One instance tracking a dashboard that the backend no longer has: looking it up and
  deleting it are both answered with a 404 error, and the lookup returns the \<^verbatim>\<open>nil\<close>
  pointer with its error.
\<close>

definition deletedEnv404 :: env where
  "deletedEnv404 = quietEnv\<lparr>k8sListGrafanas := (\<lambda>h. Inr [instance_with ''a'' [tracked 0]]),
                             apiDashboardByUID := (\<lambda>h c u. (None, Some err404)),
                             apiDeleteDashboardByUID := (\<lambda>h c u. Some err404)\<rparr>"

text \<open>
  Two ready instances matching \<open>dashboardCR\<close>; the backend of the second rejects the
  dashboard write.
\<close>

definition partialEnv :: env where
  "partialEnv = quietEnv\<lparr>k8sGet := (\<lambda>h namespace name. Inr dashboardCR),
       getMatchingInstances := (\<lambda>h s. Inr [instance_with ''a'' [], instance_with ''b'' []]),
       apiNewDashboard := (\<lambda>h c d. if c = Client ''b'' then Inl (GoError ''status: 500, body: unavailable'')
                                     else Inr \<lparr>respStatus = ''success'', respUID = ''uid-0''\<rparr>)\<rparr>"

text \<open>
  A store and a backend that remember: the backend lists the dashboards written to it,
  the store returns the dashboard resource with the status hash last written and the
  instance with the tracked list last written, all read off the history. The resource
  starts without a recorded hash.
\<close>

fun writtenTo :: "client \<Rightarrow> history \<Rightarrow> FolderDashboardSearchResponse list" where
  "writtenTo c [] = []"
| "writtenTo c (CallNewDashboard c' d # h) =
     (if c' = c then \<lparr>srUID = uidOf d, srFolderID = MetaFolder (Meta d)\<rparr> # writtenTo c h else writtenTo c h)"
| "writtenTo c (ev # h) = writtenTo c h"

fun storedDashboard :: "GrafanaDashboard \<Rightarrow> history \<Rightarrow> GrafanaDashboard" where
  "storedDashboard d [] = d"
| "storedDashboard d (CallStatusUpdateDashboard d' # h) = storedDashboard (d\<lparr>StatusHash := StatusHash d'\<rparr>) h"
| "storedDashboard d (ev # h) = storedDashboard d h"

fun storedInstance :: "Grafana \<Rightarrow> history \<Rightarrow> Grafana" where
  "storedInstance g [] = g"
| "storedInstance g (CallStatusUpdateGrafana g' # h) =
     storedInstance (if gName g' = gName g then g\<lparr>Dashboards := Dashboards g'\<rparr> else g) h"
| "storedInstance g (ev # h) = storedInstance g h"

definition storeEnv :: env where
  "storeEnv = quietEnv\<lparr>
      k8sGet := (\<lambda>h namespace name. Inr (storedDashboard (dashboardCR\<lparr>StatusHash := []\<rparr>) h)),
      getMatchingInstances := (\<lambda>h s. Inr [storedInstance (instance_with ''a'' []) h]),
      apiDashboards := (\<lambda>h c. Inr (writtenTo c h))\<rparr>"

section \<open>The batch bound of the orphan sweep\<close>

lemma deleteOrphans_bound:
  "deleteOrphans e c ds g n h = (r, h') \<Longrightarrow> n \<le> syncBatchSize \<Longrightarrow>
     length (filter isDeleteDashboard h') + n \<le> length (filter isDeleteDashboard h) + syncBatchSize \<and>
     (\<forall>g' n'. r = Inr (g', n') \<longrightarrow>
        n' \<le> syncBatchSize \<and>
        length (filter isDeleteDashboard h') + n = length (filter isDeleteDashboard h) + n')"
proof (induction ds arbitrary: g n h)
  case Nil
  then show ?case by auto
next
  case (Cons d ds)
  show ?case
  proof (cases "n \<ge> syncBatchSize")
    case True
    with Cons.prems show ?thesis by auto
  next
    case False
    show ?thesis
    proof (cases "apiDeleteDashboardByUID e h c (nrUID d)")
      case None
      with False Cons.prems have rec:
        "deleteOrphans e c ds (g\<lparr>Dashboards := Remove (Dashboards g) (nrNamespace d) (nrName d)\<rparr>)
           (n + 1) (h @ [CallDeleteDashboardByUID c (nrUID d)]) = (r, h')"
        by (simp add: Split_def)
      from False have "n + 1 \<le> syncBatchSize" by simp
      from Cons.IH[OF rec this] show ?thesis by auto
    next
      case (Some err)
      with False Cons.prems show ?thesis by (auto simp: Split_def)
    qed
  qed
qed

lemma deleteAll_bound:
  "deleteAll e ws n h = (r, h') \<Longrightarrow> n \<le> syncBatchSize \<Longrightarrow>
     length (filter isDeleteDashboard h') + n \<le> length (filter isDeleteDashboard h) + syncBatchSize"
proof (induction ws arbitrary: n h)
  case Nil
  then show ?case by auto
next
  case (Cons w ws)
  obtain g ds where w: "w = (g, ds)" by (cases w)
  show ?case
  proof (cases "newGrafanaClient e h g")
    case (Inl err)
    with Cons.prems w show ?thesis by auto
  next
    case (Inr c)
    obtain r1 h1 where inner: "deleteOrphans e c ds g n (h @ [CallNewGrafanaClient g]) = (r1, h1)"
      by (cases "deleteOrphans e c ds g n (h @ [CallNewGrafanaClient g])")
    note b = deleteOrphans_bound[OF inner Cons.prems(2)]
    show ?thesis
    proof (cases r1)
      case (Inl out)
      with Cons.prems w Inr inner b show ?thesis by auto
    next
      case (Inr gn)
      obtain g' n' where gn: "gn = (g', n')" by (cases gn)
      show ?thesis
      proof (cases "k8sStatusUpdateGrafana e h1 g'")
        case None
        with Cons.prems w \<open>newGrafanaClient e h g = Inr c\<close> inner Inr gn
        have rec: "deleteAll e ws n' (h1 @ [CallStatusUpdateGrafana g']) = (r, h')" by simp
        from b Inr gn have n': "n' \<le> syncBatchSize" by simp
        from Cons.IH[OF rec n'] b Inr gn show ?thesis by auto
      next
        case (Some err)
        with Cons.prems w \<open>newGrafanaClient e h g = Inr c\<close> inner Inr gn b show ?thesis by auto
      qed
    qed
  qed
qed

lemma syncDashboards_bound:
  "syncDashboards lv e h = (out, h') \<Longrightarrow>
     length (filter isDeleteDashboard h') \<le> length (filter isDeleteDashboard h) + syncBatchSize"
  using deleteAll_bound[of e "dashboardsToDelete lv grafanas allDashboards" 0 "h @ [CallListGrafanas, CallListDashboards]" for grafanas allDashboards]
  by (auto simp: syncDashboards_def split: sum.splits if_splits prod.splits)


lemma deleteOrphans_ok:
  assumes ok: "\<forall>h c u. apiDeleteDashboardByUID e h c u = None"
  shows "n \<le> syncBatchSize \<Longrightarrow>
    deleteOrphans e c ds g n h =
      (if n + length ds \<le> syncBatchSize then Inr (foldl removeTracked g ds, n + length ds)
       else Inl (\<lparr>Requeue = True, RequeueAfter = 0\<rparr>, None),
       h @ map (\<lambda>d. CallDeleteDashboardByUID c (nrUID d)) (take (syncBatchSize - n) ds))"
proof (induction ds arbitrary: g n h)
  case Nil
  then show ?case by simp
next
  case (Cons d ds)
  show ?case
  proof (cases "n = syncBatchSize")
    case True
    then show ?thesis by simp
  next
    case False
    with Cons.prems have lt: "n < syncBatchSize" by simp
    then have suc: "syncBatchSize - n = Suc (syncBatchSize - (n + 1))" by simp
    from lt have le: "n + 1 \<le> syncBatchSize" by simp
    show ?thesis
      using lt ok Cons.IH[OF le, of "removeTracked g d" "h @ [CallDeleteDashboardByUID c (nrUID d)]"]
      by (simp add: Split_def suc removeTracked_def del: One_nat_def)
  qed
qed

lemma deleteAll_ok:
  assumes ok: "sweepCallsSucceed e"
  shows "n \<le> syncBatchSize \<Longrightarrow>
    fst (deleteAll e ws n h) =
      (if n + length (concat (map snd ws)) \<le> syncBatchSize
       then Inr (n + length (concat (map snd ws)))
       else Inl (\<lparr>Requeue = True, RequeueAfter = 0\<rparr>, None)) \<and>
    length (filter isDeleteDashboard (snd (deleteAll e ws n h))) =
      length (filter isDeleteDashboard h) + min (length (concat (map snd ws))) (syncBatchSize - n)"
proof (induction ws arbitrary: n h)
  case Nil
  then show ?case by simp
next
  case (Cons w ws)
  obtain g ds where w: "w = (g, ds)" by (cases w)
  from ok obtain c where c: "newGrafanaClient e h g = Inr c"
    unfolding sweepCallsSucceed_def by blast
  from ok have del: "\<forall>h c u. apiDeleteDashboardByUID e h c u = None"
    and upd: "\<And>h g. k8sStatusUpdateGrafana e h g = None"
    unfolding sweepCallsSucceed_def by blast+
  note inner = deleteOrphans_ok[OF del Cons.prems, of c ds g "h @ [CallNewGrafanaClient g]"]
  have cnt: "length (filter isDeleteDashboard (map (\<lambda>d. CallDeleteDashboardByUID c (nrUID d)) xs)) = length xs"
    for xs :: "NamespacedResource list"
    by (induction xs) simp_all
  define T where "T = length (concat (map snd ws))"
  have total: "length (concat (map snd (w # ws))) = length ds + T"
    by (simp add: w T_def)
  show ?case
  proof (cases "n + length ds \<le> syncBatchSize")
    case True
    then have tk: "take (syncBatchSize - n) ds = ds" by simp
    define h1 where "h1 = h @ [CallNewGrafanaClient g] @ map (\<lambda>d. CallDeleteDashboardByUID c (nrUID d)) ds
                              @ [CallStatusUpdateGrafana (foldl removeTracked g ds)]"
    have step: "deleteAll e (w # ws) n h = deleteAll e ws (n + length ds) h1"
      using True by (simp add: w c inner upd tk h1_def)
    have d1: "length (filter isDeleteDashboard h1) = length (filter isDeleteDashboard h) + length ds"
      by (simp add: h1_def cnt)
    from Cons.IH[OF True, of h1]
    have ih1: "fst (deleteAll e ws (n + length ds) h1) =
                 (if n + length ds + T \<le> syncBatchSize then Inr (n + length ds + T)
                  else Inl (\<lparr>Requeue = True, RequeueAfter = 0\<rparr>, None))"
      and ih2: "length (filter isDeleteDashboard (snd (deleteAll e ws (n + length ds) h1))) =
                 length (filter isDeleteDashboard h1) + min T (syncBatchSize - (n + length ds))"
      unfolding T_def by blast+
    have m: "length ds + min T (syncBatchSize - (n + length ds)) = min (length ds + T) (syncBatchSize - n)"
      using True by arith
    show ?thesis
      unfolding step total using ih1 ih2 d1 m by (simp add: add.assoc)
  next
    case False
    then have m: "min (length ds + T) (syncBatchSize - n) = syncBatchSize - n"
      and f: "\<not> n + (length ds + T) \<le> syncBatchSize" by arith+
    have l: "length (take (syncBatchSize - n) ds) = syncBatchSize - n"
      using False by simp
    have step: "deleteAll e (w # ws) n h =
        (Inl (\<lparr>Requeue = True, RequeueAfter = 0\<rparr>, None),
         h @ [CallNewGrafanaClient g] @ map (\<lambda>d. CallDeleteDashboardByUID c (nrUID d)) (take (syncBatchSize - n) ds))"
      using False by (simp add: w c inner)
    show ?thesis
      unfolding step total m using f by (simp add: cnt l del: length_take)
  qed
qed

lemma orphans_total:
  "length (concat (map snd (dashboardsToDelete lv grafanas allDashboards))) =
     length (concat (map (orphans allDashboards) grafanas))"
proof (cases lv)
  case PerLoop
  then show ?thesis by (simp add: dashboardsToDelete_def Let_def)
next
  case PerIteration
  have "length (concat (map snd (filter (\<lambda>(grafana, dashboards). dashboards \<noteq> []) (map (\<lambda>grafana. (grafana, f grafana)) gs))))
      = length (concat (map f gs))" for f :: "Grafana \<Rightarrow> NamespacedResource list" and gs
    by (induction gs) simp_all
  with PerIteration show ?thesis by (simp add: dashboardsToDelete_def)
qed

lemma syncDashboards_ok:
  assumes ok: "sweepCallsSucceed e"
    and gs: "k8sListGrafanas e h = Inr grafanas"
    and ds: "k8sListDashboards e (h @ [CallListGrafanas]) = Inr allDashboards"
  shows "fst (syncDashboards lv e h) =
      (\<lparr>Requeue = (syncBatchSize < length (concat (map (orphans allDashboards) grafanas))), RequeueAfter = 0\<rparr>, None) \<and>
    length (filter isDeleteDashboard (snd (syncDashboards lv e h))) =
      length (filter isDeleteDashboard h) + min (length (concat (map (orphans allDashboards) grafanas))) syncBatchSize"
proof (cases "grafanas = []")
  case True
  then show ?thesis by (simp add: syncDashboards_def gs)
next
  case False
  have z: "(0::nat) \<le> syncBatchSize" by simp
  note a = deleteAll_ok[OF ok z, of "dashboardsToDelete lv grafanas allDashboards" "h @ [CallListGrafanas, CallListDashboards]"]
  show ?thesis
    using False a
    by (cases "deleteAll e (dashboardsToDelete lv grafanas allDashboards) 0 (h @ [CallListGrafanas, CallListDashboards])")
       (auto simp: syncDashboards_def gs ds orphans_total split: sum.splits if_splits)
qed


text \<open>
  C1. One pass of \<^verbatim>\<open>syncDashboards\<close> issues at most 100 dashboard deletions, whatever the
  collaborators answer and however the orphans are spread over the instances. When
  the two list calls and every later call succeed: with more than 100 orphaned
  entries (250, say) the pass issues exactly 100 deletions and returns
  \<^verbatim>\<open>Requeue: true\<close> without an error; with at most 100 it deletes them all and returns
  \<^verbatim>\<open>Requeue: false\<close> without an error.
\<close>

theorem sweep_batch_bound:
  assumes run: "syncDashboards lv e h = (out, h')"
  shows "length (filter isDeleteDashboard h') \<le> length (filter isDeleteDashboard h) + 100 \<and>
    (sweepCallsSucceed e \<and> k8sListGrafanas e h = Inr grafanas \<and>
     k8sListDashboards e (h @ [CallListGrafanas]) = Inr allDashboards \<longrightarrow>
       (100 < length (concat (map (orphans allDashboards) grafanas)) \<longrightarrow>
          out = (\<lparr>Requeue = True, RequeueAfter = 0\<rparr>, None) \<and>
          length (filter isDeleteDashboard h') = length (filter isDeleteDashboard h) + 100) \<and>
       (length (concat (map (orphans allDashboards) grafanas)) \<le> 100 \<longrightarrow>
          out = (\<lparr>Requeue = False, RequeueAfter = 0\<rparr>, None) \<and>
          length (filter isDeleteDashboard h') =
            length (filter isDeleteDashboard h) + length (concat (map (orphans allDashboards) grafanas))))"
proof (intro conjI impI)
  show "length (filter isDeleteDashboard h') \<le> length (filter isDeleteDashboard h) + 100"
    using syncDashboards_bound[OF run] by (simp add: syncBatchSize_def)
next
  assume a: "sweepCallsSucceed e \<and> k8sListGrafanas e h = Inr grafanas \<and>
     k8sListDashboards e (h @ [CallListGrafanas]) = Inr allDashboards"
  then have ok: "sweepCallsSucceed e" and gs: "k8sListGrafanas e h = Inr grafanas"
    and ds: "k8sListDashboards e (h @ [CallListGrafanas]) = Inr allDashboards" by simp_all
  note s = syncDashboards_ok[OF ok gs ds, of lv]
  {
    assume big: "100 < length (concat (map (orphans allDashboards) grafanas))"
    from s run big show "out = (\<lparr>Requeue = True, RequeueAfter = 0\<rparr>, None)"
      by (simp add: syncBatchSize_def)
    from s run big show "length (filter isDeleteDashboard h') = length (filter isDeleteDashboard h) + 100"
      by (simp add: syncBatchSize_def)
  }
  {
    assume small: "length (concat (map (orphans allDashboards) grafanas)) \<le> 100"
    from s run small show "out = (\<lparr>Requeue = False, RequeueAfter = 0\<rparr>, None)"
      by (simp add: syncBatchSize_def)
    from s run small show "length (filter isDeleteDashboard h') =
        length (filter isDeleteDashboard h) + length (concat (map (orphans allDashboards) grafanas))"
      by (simp add: syncBatchSize_def)
  }
qed

lemma orphans_no_resource: "orphans [] g = Dashboards g"
  by (simp add: orphans_def)

lemma quietEnv_sweepCallsSucceed:
  "sweepCallsSucceed (quietEnv\<lparr>k8sListGrafanas := f\<rparr>)"
  by (simp add: sweepCallsSucceed_def quietEnv_def)

theorem sweep_batch_bound_witness:
  "fst (syncDashboards PerIteration sweepEnv250 []) = (\<lparr>Requeue = True, RequeueAfter = 0\<rparr>, None) \<and>
   length (filter isDeleteDashboard (snd (syncDashboards PerIteration sweepEnv250 []))) = 100 \<and>
   fst (syncDashboards PerIteration sweepEnv50 []) = (\<lparr>Requeue = False, RequeueAfter = 0\<rparr>, None) \<and>
   length (filter isDeleteDashboard (snd (syncDashboards PerIteration sweepEnv50 []))) = 50"
proof -
  have ok1: "sweepCallsSucceed sweepEnv250" and ok2: "sweepCallsSucceed sweepEnv50"
    unfolding sweepEnv250_def sweepEnv50_def by (rule quietEnv_sweepCallsSucceed)+
  have l1: "k8sListGrafanas sweepEnv250 [] =
      Inr [instance_with ''a'' (map tracked [0..<120]), instance_with ''b'' (map tracked [120..<250])]"
    and d1: "k8sListDashboards sweepEnv250 ([] @ [CallListGrafanas]) = Inr []"
    by (simp_all add: sweepEnv250_def quietEnv_def)
  have l2: "k8sListGrafanas sweepEnv50 [] =
      Inr [instance_with ''a'' (map tracked [0..<20]), instance_with ''b'' (map tracked [20..<50])]"
    and d2: "k8sListDashboards sweepEnv50 ([] @ [CallListGrafanas]) = Inr []"
    by (simp_all add: sweepEnv50_def quietEnv_def)
  have t1: "length (concat (map (orphans [])
      [instance_with ''a'' (map tracked [0..<120]), instance_with ''b'' (map tracked [120..<250])])) = 250"
    by (simp add: orphans_no_resource instance_with_def)
  have t2: "length (concat (map (orphans [])
      [instance_with ''a'' (map tracked [0..<20]), instance_with ''b'' (map tracked [20..<50])])) = 50"
    by (simp add: orphans_no_resource instance_with_def)
  have p1: "syncDashboards PerIteration sweepEnv250 [] =
      (fst (syncDashboards PerIteration sweepEnv250 []), snd (syncDashboards PerIteration sweepEnv250 []))"
    and p2: "syncDashboards PerIteration sweepEnv50 [] =
      (fst (syncDashboards PerIteration sweepEnv50 []), snd (syncDashboards PerIteration sweepEnv50 []))"
    by simp_all
  from sweep_batch_bound[OF p1, of _ "[]"] ok1 l1 d1 t1
  have r1: "fst (syncDashboards PerIteration sweepEnv250 []) = (\<lparr>Requeue = True, RequeueAfter = 0\<rparr>, None) \<and>
      length (filter isDeleteDashboard (snd (syncDashboards PerIteration sweepEnv250 []))) = 100"
    by simp
  from sweep_batch_bound[OF p2, of _ "[]"] ok2 l2 d2 t2
  have r2: "fst (syncDashboards PerIteration sweepEnv50 []) = (\<lparr>Requeue = False, RequeueAfter = 0\<rparr>, None) \<and>
      length (filter isDeleteDashboard (snd (syncDashboards PerIteration sweepEnv50 []))) = 50"
    by simp
  from r1 r2 show ?thesis by simp
qed

section \<open>The sweep at the batch limit and on a missing dashboard\<close>

lemma dashboardsToDelete_single:
  "orphans allDashboards g \<noteq> [] \<Longrightarrow>
     dashboardsToDelete lv [g] allDashboards = [(g, orphans allDashboards g)]"
  by (cases lv) (simp_all add: dashboardsToDelete_def)

lemma sweep_limit_mid_instance:
  assumes ok: "sweepCallsSucceed e"
    and gs: "k8sListGrafanas e h = Inr [g]"
    and ds: "k8sListDashboards e (h @ [CallListGrafanas]) = Inr allDashboards"
    and c: "newGrafanaClient e (h @ [CallListGrafanas, CallListDashboards]) g = Inr c"
    and big: "syncBatchSize < length (orphans allDashboards g)"
  shows "syncDashboards lv e h =
     ((\<lparr>Requeue = True, RequeueAfter = 0\<rparr>, None),
      h @ [CallListGrafanas, CallListDashboards, CallNewGrafanaClient g] @
        map (\<lambda>d. CallDeleteDashboardByUID c (nrUID d)) (take syncBatchSize (orphans allDashboards g)))"
proof -
  from big have ne: "orphans allDashboards g \<noteq> []" by auto
  from ok have del: "\<forall>h c u. apiDeleteDashboardByUID e h c u = None"
    unfolding sweepCallsSucceed_def by blast
  have z: "(0::nat) \<le> syncBatchSize" by simp
  note inner = deleteOrphans_ok[OF del z, of c "orphans allDashboards g" g
      "h @ [CallListGrafanas, CallListDashboards, CallNewGrafanaClient g]"]
  show ?thesis
    using big by (simp add: syncDashboards_def gs ds dashboardsToDelete_single[OF ne] c inner)
qed

lemma count_delete_events:
  "length (filter isDeleteDashboard (map (\<lambda>d. CallDeleteDashboardByUID c (nrUID d)) xs)) = length xs"
  by (induction xs) simp_all

lemma no_status_in_delete_events:
  "filter isStatusUpdateGrafana (map (\<lambda>d. CallDeleteDashboardByUID c (nrUID d)) xs) = []"
  by (induction xs) simp_all

text \<open>
  C5. The sweep is meant to write one status update for each instance it processed,
  also for the instance at which the batch limit is reached. At the limit the code
  returns from inside the loop: with one instance tracking 101 orphans the pass issues
  100 deletions, returns \<^verbatim>\<open>Requeue: true\<close> and writes no instance status at all, so the
  100 removals made in memory are lost.
\<close>

theorem sweep_limit_drops_status_update:
  "\<forall>lv. fst (syncDashboards lv sweepEnv101 []) = (\<lparr>Requeue = True, RequeueAfter = 0\<rparr>, None) \<and>
     length (filter isDeleteDashboard (snd (syncDashboards lv sweepEnv101 []))) = 100 \<and>
     filter isStatusUpdateGrafana (snd (syncDashboards lv sweepEnv101 [])) = []"
proof
  fix lv
  have ok: "sweepCallsSucceed sweepEnv101"
    unfolding sweepEnv101_def by (rule quietEnv_sweepCallsSucceed)
  have gs: "k8sListGrafanas sweepEnv101 [] = Inr [instance_with ''a'' (map tracked [0..<101])]"
    and ds: "k8sListDashboards sweepEnv101 ([] @ [CallListGrafanas]) = Inr []"
    and c: "newGrafanaClient sweepEnv101 ([] @ [CallListGrafanas, CallListDashboards])
              (instance_with ''a'' (map tracked [0..<101])) = Inr (Client ''a'')"
    by (simp_all add: sweepEnv101_def quietEnv_def instance_with_def)
  have big: "syncBatchSize < length (orphans [] (instance_with ''a'' (map tracked [0..<101])))"
    by (simp add: orphans_no_resource instance_with_def syncBatchSize_def)
  note run = sweep_limit_mid_instance[OF ok gs ds c big, of lv]
  show "fst (syncDashboards lv sweepEnv101 []) = (\<lparr>Requeue = True, RequeueAfter = 0\<rparr>, None) \<and>
     length (filter isDeleteDashboard (snd (syncDashboards lv sweepEnv101 []))) = 100 \<and>
     filter isStatusUpdateGrafana (snd (syncDashboards lv sweepEnv101 [])) = []"
    unfolding run
    by (simp add: count_delete_events no_status_in_delete_events orphans_no_resource
          instance_with_def syncBatchSize_def)
qed

text \<open>
  C4. In the sweep a 404 answer to the deletion of a dashboard is not swallowed: the
  pass returns the error at once, with \<^verbatim>\<open>Requeue: false\<close>, and neither removes the tracked
  entry nor writes the instance status.
\<close>

theorem sweep_aborts_on_404:
  "syncDashboards PerIteration sweepEnv404 [] =
     ((\<lparr>Requeue = False, RequeueAfter = 0\<rparr>, Some (GoError ''status: 404, body: Dashboard not found'')),
      [CallListGrafanas, CallListDashboards, CallNewGrafanaClient (instance_with ''a'' [tracked 0]),
       CallDeleteDashboardByUID (Client ''a'') ''uid-0''])"
  by (simp add: syncDashboards_def sweepEnv404_def quietEnv_def dashboardsToDelete_def orphans_def
        instance_with_def tracked_def Split_def syncBatchSize_def err404_def digitChar_def)

section \<open>Folders and the identifier 0\<close>

lemma FormatInt_zero: "FormatInt 0 = ''0''"
  by (simp add: FormatInt_def digitChar_def)

lemma folderInUse_iff: "folderInUse dashboards folderID \<longleftrightarrow> folderID \<in> srFolderID ` set dashboards"
  by (induction dashboards) auto

text \<open>
  C8, as stated, fails: \<^verbatim>\<open>DeleteFolderIfEmpty\<close> has no case for the identifier 0. On a
  backend without dashboards it asks the backend to delete the folder \<open>0\<close>.
\<close>

theorem delete_folder_zero_counterexample:
  "DeleteFolderIfEmpty quietEnv (Client ''a'') 0 [] =
     ((\<lparr>Status = ''grafana folder deleted'', StatusCode = 200\<rparr>, None),
      [CallDashboards (Client ''a''), CallDeleteFolder (Client ''a'') ''0''])"
  by (simp add: DeleteFolderIfEmpty_def quietEnv_def FormatInt_zero)

text \<open>
  C8, amended. Called with the identifier 0, and the backend's dashboard list obtained:
  \<^verbatim>\<open>DeleteFolderIfEmpty\<close> returns the status 423 without an error and without a
  delete-folder call when a listed dashboard has the folder identifier 0; otherwise it
  issues the delete-folder call for \<open>0\<close> and returns what that call answers, with the
  status 200 if it succeeds and 500 if it fails.
\<close>

theorem delete_folder_zero:
  assumes list: "apiDashboards e h c = Inr dashboards"
  shows "(0 \<in> srFolderID ` set dashboards \<longrightarrow>
            DeleteFolderIfEmpty e c 0 h =
              ((\<lparr>Status = ''resource is still in use'', StatusCode = 423\<rparr>, None), h @ [CallDashboards c])) \<and>
         (0 \<notin> srFolderID ` set dashboards \<longrightarrow>
            snd (DeleteFolderIfEmpty e c 0 h) = h @ [CallDashboards c, CallDeleteFolder c ''0''] \<and>
            snd (fst (DeleteFolderIfEmpty e c 0 h)) = apiDeleteFolder e (h @ [CallDashboards c]) c ''0'' \<and>
            StatusCode (fst (fst (DeleteFolderIfEmpty e c 0 h))) =
              (if apiDeleteFolder e (h @ [CallDashboards c]) c ''0'' = None then 200 else 500))"
  by (auto simp: DeleteFolderIfEmpty_def list folderInUse_iff FormatInt_zero split: option.splits)

theorem delete_folder_zero_witness:
  "DeleteFolderIfEmpty folderZeroInUseEnv (Client ''a'') 0 [] =
     ((\<lparr>Status = ''resource is still in use'', StatusCode = 423\<rparr>, None), [CallDashboards (Client ''a'')]) \<and>
   snd (DeleteFolderIfEmpty quietEnv (Client ''a'') 0 []) =
     [CallDashboards (Client ''a''), CallDeleteFolder (Client ''a'') ''0''] \<and>
   StatusCode (fst (fst (DeleteFolderIfEmpty quietEnv (Client ''a'') 0 []))) = 200"
proof -
  have l1: "apiDashboards folderZeroInUseEnv [] (Client ''a'') = Inr [\<lparr>srUID = ''uid-1'', srFolderID = 0\<rparr>]"
    by (simp add: folderZeroInUseEnv_def quietEnv_def)
  have l2: "apiDashboards quietEnv [] (Client ''a'') = Inr []"
    by (simp add: quietEnv_def)
  have d: "apiDeleteFolder quietEnv ([] @ [CallDashboards (Client ''a'')]) (Client ''a'') ''0'' = None"
    by (simp add: quietEnv_def)
  from delete_folder_zero[OF l1] delete_folder_zero[OF l2] d show ?thesis by simp
qed

lemma findFolderID_find:
  "findFolderID folders title =
     (case find (\<lambda>f. Title f = title) folders of None \<Rightarrow> 0 | Some folder \<Rightarrow> ID folder)"
  by (induction folders) simp_all

text \<open>
  C9. \<^verbatim>\<open>GetFolderID\<close> returns 0 when no listed folder has the title, and also when the
  first listed folder with the title has the identifier 0. In the second case
  \<^verbatim>\<open>GetOrCreateFolder\<close>, for a non-empty title, goes on to create a folder with that title
  although one exists.
\<close>

theorem folder_id_zero_means_not_found:
  assumes list: "apiFolders e h c = Inr folders"
  shows "(find (\<lambda>f. Title f = FolderTitle cr) folders = None \<longrightarrow>
            GetFolderID e c cr h = (Inr 0, h @ [CallFolders c])) \<and>
         (\<forall>folder. find (\<lambda>f. Title f = FolderTitle cr) folders = Some folder \<and> ID folder = 0 \<longrightarrow>
            GetFolderID e c cr h = (Inr 0, h @ [CallFolders c]) \<and>
            (FolderTitle cr \<noteq> [] \<longrightarrow>
               snd (GetOrCreateFolder e c cr h) = h @ [CallFolders c, CallNewFolder c (FolderTitle cr)]))"
  by (auto simp: GetOrCreateFolder_def GetFolderID_def list findFolderID_find split: sum.splits)

theorem folder_id_zero_means_not_found_witness:
  "GetFolderID quietEnv (Client ''a'') dashboardCR [] = (Inr 0, [CallFolders (Client ''a'')]) \<and>
   GetFolderID folderZeroEnv (Client ''a'') dashboardCR [] = (Inr 0, [CallFolders (Client ''a'')]) \<and>
   snd (GetOrCreateFolder folderZeroEnv (Client ''a'') dashboardCR []) =
     [CallFolders (Client ''a''), CallNewFolder (Client ''a'') ''General'']"
proof -
  have l1: "apiFolders quietEnv [] (Client ''a'') = Inr []"
    by (simp add: quietEnv_def)
  have l2: "apiFolders folderZeroEnv [] (Client ''a'') = Inr [\<lparr>ID = 0, Title = ''General''\<rparr>]"
    by (simp add: folderZeroEnv_def quietEnv_def)
  have f: "find (\<lambda>f. Title f = FolderTitle dashboardCR) [\<lparr>ID = 0, Title = ''General''\<rparr>]
             = Some \<lparr>ID = 0, Title = ''General''\<rparr>"
    and t: "FolderTitle dashboardCR = ''General''"
    by (simp_all add: dashboardCR_def)
  from folder_id_zero_means_not_found[OF l1, of dashboardCR]
       folder_id_zero_means_not_found[OF l2, of dashboardCR] f t
  show ?thesis by simp
qed

section \<open>Convergence: the skip path and the content sources\<close>

lemma hasUID_iff: "hasUID dashboards uid \<longleftrightarrow> uid \<in> srUID ` set dashboards"
  by (induction dashboards) auto

lemma fetch_history:
  "fetchDashboardJson e cr h = (r, h1) \<Longrightarrow> h1 = h \<or> h1 = h @ [CallFetchDashboardFromUrl cr]"
  by (auto simp: fetchDashboardJson_def Let_def split: if_splits DashboardSourceType.splits)

lemma skip_path:
  assumes fetch: "fetchDashboardJson e cr h = (Inr js, h1)"
    and unchanged: "Hash e (cr\<lparr>Json := js\<rparr>) = StatusHash cr"
    and client: "newGrafanaClient e h1 grafana = Inr c"
    and list: "apiDashboards e (h1 @ [CallNewGrafanaClient grafana]) c = Inr dashboards"
    and present: "UID cr \<in> srUID ` set dashboards"
  shows "onDashboardCreated e grafana cr h =
           ((Return None, grafana, cr\<lparr>Json := js\<rparr>), h1 @ [CallNewGrafanaClient grafana, CallDashboards c])"
  using present unchanged
  by (simp add: onDashboardCreated_def fetch client Exists_def list hasUID_iff Unchanged_def)

text \<open>
  C2. Let the content of a dashboard resource be resolved, let the hash recorded in
  its status equal the hash of the resource with that content, and let every dashboard
  list the backend returns contain the resource's UID. Then \<^verbatim>\<open>onDashboardCreated\<close> issues no
  backend write, in particular no create-or-overwrite call, and returns \<^verbatim>\<open>nil\<close> when the
  client is built and the list obtained.
\<close>

theorem converged_resource_not_written:
  assumes fetch: "fetchDashboardJson e cr h = (Inr js, h1)"
    and unchanged: "Hash e (cr\<lparr>Json := js\<rparr>) = StatusHash cr"
    and present: "\<forall>c dashboards. newGrafanaClient e h1 grafana = Inr c \<and>
                    apiDashboards e (h1 @ [CallNewGrafanaClient grafana]) c = Inr dashboards
                    \<longrightarrow> UID cr \<in> srUID ` set dashboards"
  shows "filter isBackendWrite (snd (onDashboardCreated e grafana cr h)) = filter isBackendWrite h \<and>
         filter isNewDashboard (snd (onDashboardCreated e grafana cr h)) = filter isNewDashboard h \<and>
         (\<forall>c dashboards. newGrafanaClient e h1 grafana = Inr c \<and>
              apiDashboards e (h1 @ [CallNewGrafanaClient grafana]) c = Inr dashboards
              \<longrightarrow> fst (fst (onDashboardCreated e grafana cr h)) = Return None)"
proof -
  from fetch_history[OF fetch] have h1: "filter isBackendWrite h1 = filter isBackendWrite h"
    and h1': "filter isNewDashboard h1 = filter isNewDashboard h" by auto
  show ?thesis
  proof (cases "newGrafanaClient e h1 grafana")
    case (Inl err)
    then show ?thesis by (simp add: onDashboardCreated_def fetch h1 h1')
  next
    case (Inr c)
    show ?thesis
    proof (cases "apiDashboards e (h1 @ [CallNewGrafanaClient grafana]) c")
      case (Inl err)
      with Inr show ?thesis by (simp add: onDashboardCreated_def fetch Exists_def h1 h1')
    next
      case list: (Inr dashboards)
      from present Inr list have "UID cr \<in> srUID ` set dashboards" by blast
      from skip_path[OF fetch unchanged Inr list this] Inr list show ?thesis by (simp add: h1 h1')
    qed
  qed
qed

theorem converged_resource_not_written_witness:
  "filter isBackendWrite (snd (onDashboardCreated convergedEnv (instance_with ''a'' [tracked 0]) dashboardCR [])) = [] \<and>
   fst (fst (onDashboardCreated convergedEnv (instance_with ''a'' [tracked 0]) dashboardCR [])) = Return None"
proof -
  have fetch: "fetchDashboardJson convergedEnv dashboardCR [] = (Inr ''{}'', [])"
    by (simp add: fetchDashboardJson_def convergedEnv_def quietEnv_def dashboardCR_def)
  have unchanged: "Hash convergedEnv (dashboardCR\<lparr>Json := ''{}''\<rparr>) = StatusHash dashboardCR"
    by (simp add: convergedEnv_def quietEnv_def dashboardCR_def)
  have client: "newGrafanaClient convergedEnv [] (instance_with ''a'' [tracked 0]) = Inr (Client ''a'')"
    by (simp add: convergedEnv_def quietEnv_def instance_with_def)
  have list: "apiDashboards convergedEnv ([] @ [CallNewGrafanaClient (instance_with ''a'' [tracked 0])]) c =
      Inr [\<lparr>srUID = ''uid-0'', srFolderID = 0\<rparr>]" for c
    by (simp add: convergedEnv_def quietEnv_def)
  have present: "\<forall>c dashboards. newGrafanaClient convergedEnv [] (instance_with ''a'' [tracked 0]) = Inr c \<and>
      apiDashboards convergedEnv ([] @ [CallNewGrafanaClient (instance_with ''a'' [tracked 0])]) c = Inr dashboards
      \<longrightarrow> UID dashboardCR \<in> srUID ` set dashboards"
    using list by (auto simp: dashboardCR_def)
  from converged_resource_not_written[OF fetch unchanged present] client list
  show ?thesis by simp
qed

text \<open>
  C10. On the skip path of \<^verbatim>\<open>onDashboardCreated\<close> (the backend lists the UID and the hash is
  unchanged) the function returns \<^verbatim>\<open>nil\<close> and writes no status, neither the instance's nor
  the dashboard resource's, makes no folder call, and leaves the tracked list of the
  instance and the status hash of the resource as they were in memory.
\<close>

theorem skip_path_writes_no_status:
  assumes fetch: "fetchDashboardJson e cr h = (Inr js, h1)"
    and unchanged: "Hash e (cr\<lparr>Json := js\<rparr>) = StatusHash cr"
    and client: "newGrafanaClient e h1 grafana = Inr c"
    and list: "apiDashboards e (h1 @ [CallNewGrafanaClient grafana]) c = Inr dashboards"
    and present: "UID cr \<in> srUID ` set dashboards"
    and run: "onDashboardCreated e grafana cr h = ((r, grafana', cr'), h')"
  shows "r = Return None \<and>
         filter isStatusUpdate h' = filter isStatusUpdate h \<and>
         filter isFolderCall h' = filter isFolderCall h \<and>
         grafana' = grafana \<and> StatusHash cr' = StatusHash cr"
proof -
  from fetch_history[OF fetch] have "filter isStatusUpdate h1 = filter isStatusUpdate h"
    and "filter isFolderCall h1 = filter isFolderCall h" by auto
  with skip_path[OF fetch unchanged client list present] run show ?thesis by simp
qed

theorem skip_path_writes_no_status_witness:
  "fst (onDashboardCreated convergedEnv (instance_with ''a'' [tracked 0]) dashboardCR []) =
     (Return None, instance_with ''a'' [tracked 0], dashboardCR) \<and>
   filter isStatusUpdate (snd (onDashboardCreated convergedEnv (instance_with ''a'' [tracked 0]) dashboardCR [])) = [] \<and>
   filter isFolderCall (snd (onDashboardCreated convergedEnv (instance_with ''a'' [tracked 0]) dashboardCR [])) = []"
proof -
  have fetch: "fetchDashboardJson convergedEnv dashboardCR [] = (Inr ''{}'', [])"
    by (simp add: fetchDashboardJson_def convergedEnv_def quietEnv_def dashboardCR_def)
  have unchanged: "Hash convergedEnv (dashboardCR\<lparr>Json := ''{}''\<rparr>) = StatusHash dashboardCR"
    by (simp add: convergedEnv_def quietEnv_def dashboardCR_def)
  have client: "newGrafanaClient convergedEnv [] (instance_with ''a'' [tracked 0]) = Inr (Client ''a'')"
    by (simp add: convergedEnv_def quietEnv_def instance_with_def)
  have list: "apiDashboards convergedEnv ([] @ [CallNewGrafanaClient (instance_with ''a'' [tracked 0])]) (Client ''a'') =
      Inr [\<lparr>srUID = ''uid-0'', srFolderID = 0\<rparr>]"
    by (simp add: convergedEnv_def quietEnv_def)
  have present: "UID dashboardCR \<in> srUID ` set [\<lparr>srUID = ''uid-0'', srFolderID = 0\<rparr>]"
    by (simp add: dashboardCR_def)
  obtain r g' cr' h' where run:
    "onDashboardCreated convergedEnv (instance_with ''a'' [tracked 0]) dashboardCR [] = ((r, g', cr'), h')"
    by (metis prod.exhaust)
  have same: "dashboardCR\<lparr>Json := ''{}''\<rparr> = dashboardCR"
    by (simp add: dashboardCR_def)
  from skip_path[OF fetch unchanged client list present] run same
  have cr': "cr' = dashboardCR" by simp
  from skip_path_writes_no_status[OF fetch unchanged client list present run] run cr'
  show ?thesis by simp
qed

text \<open>
  The two properties at work on the store and backend that remember: the first
  \<^verbatim>\<open>Reconcile\<close> creates the folder, writes the dashboard and both statuses; the second,
  run on the history the first one left, issues no backend write and no status write.
\<close>

lemmas store_defs = Reconcile_def storeEnv_def quietEnv_def request_def dashboardCR_def instance_with_def
  onDashboardCreated_def fetchDashboardJson_def Exists_def Unchanged_def writeDashboard_def
  GetOrCreateFolder_def GetFolderID_def UpdateStatus_def Add_def Remove_def Let_def uidOf_def


lemma first_pass:
  "Reconcile PerIteration storeEnv request [] =
     (Return (\<lparr>Requeue = False, RequeueAfter = 300000000000\<rparr>, None),
      [CallGet ''monitoring'' ''dash-0'', CallGetMatchingInstances [(''dashboards'', ''grafana'')],
       CallReconcilePlugins (instance_with ''a'' []) [] ''dash-0-dashboard'',
       CallNewGrafanaClient (instance_with ''a'' []),
       CallDashboards (Client ''a''), CallFolders (Client ''a''), CallNewFolder (Client ''a'') ''General'',
       CallNewDashboard (Client ''a'')
         \<lparr>Meta = \<lparr>IsStarred = False, Slug = ''dash-0'', MetaFolder = 1\<rparr>,
          Model = [(''uid'', JString ''uid-0'')], Folder = 0, Overwrite = True, Message = []\<rparr>,
       CallStatusUpdateGrafana
         (instance_with ''a'' [\<lparr>nrNamespace = ''monitoring'', nrName = ''dash-0'', nrUID = ''uid-0''\<rparr>]),
       CallStatusUpdateDashboard dashboardCR])"
  by (simp add: store_defs)


lemma reconcile_twice_writes_once:
  "(case Reconcile PerIteration storeEnv request [] of
      (r1, h1) \<Rightarrow>
        (case Reconcile PerIteration storeEnv request h1 of
           (r2, h2) \<Rightarrow>
             r1 = Return (\<lparr>Requeue = False, RequeueAfter = 300000000000\<rparr>, None) \<and>
             r2 = Return (\<lparr>Requeue = False, RequeueAfter = 300000000000\<rparr>, None) \<and>
             length (filter isNewDashboard h1) = 1 \<and>
             filter isBackendWrite h2 = filter isBackendWrite h1 \<and>
             filter isStatusUpdate h2 = filter isStatusUpdate h1))"
  unfolding first_pass by (simp add: store_defs)

lemma fetch_bad_sources:
  assumes "length (GetSourceTypes e cr) \<noteq> 1"
  shows "fetchDashboardJson e cr h =
     (Inl (GoError ((if GetSourceTypes e cr = [] then ''no source type provided for dashboard ''
                     else ''more than one source types found for dashboard '') @ dName cr)), h)"
  using assms by (cases "GetSourceTypes e cr") (auto simp: fetchDashboardJson_def Let_def)

lemma created_bad_sources:
  assumes "length (GetSourceTypes e cr) \<noteq> 1"
  shows "onDashboardCreated e grafana cr h =
     ((Return (Some (GoError ((if GetSourceTypes e cr = [] then ''no source type provided for dashboard ''
                     else ''more than one source types found for dashboard '') @ dName cr))), grafana, cr), h)"
  by (simp add: onDashboardCreated_def fetch_bad_sources[OF assms])

lemma reconcileInstances_bad_sources:
  assumes bad: "length (GetSourceTypes e cr) \<noteq> 1"
  shows "\<exists>s h'. reconcileInstances e instances cr success h = (Return (s, cr), h') \<and>
           (instances \<noteq> [] \<longrightarrow> \<not> s) \<and> (\<not> success \<longrightarrow> \<not> s) \<and>
           filter isBackendWrite h' = filter isBackendWrite h"
proof (induction instances arbitrary: success h)
  case Nil
  then show ?case by simp
next
  case (Cons g gs)
  show ?case
  proof (cases "Stage g \<noteq> OperatorStageComplete \<or> StageStatus g \<noteq> OperatorStageResultSuccess")
    case True
    from Cons.IH[of False h] True show ?thesis by auto
  next
    case False
    from Cons.IH[of False "h @ [CallReconcilePlugins g (Plugins cr) (dName cr @ ''-dashboard'')]"]
    show ?thesis using False by (auto simp: created_bad_sources[OF bad] Let_def)
  qed
qed

text \<open>
  C6. For a dashboard resource with no content source or with more than one,
  \<^verbatim>\<open>fetchDashboardJson\<close> returns the configuration error without a call, and
  \<^verbatim>\<open>onDashboardCreated\<close> returns that error without a call and without touching the
  instance or the resource. When \<^verbatim>\<open>Reconcile\<close> loads such a resource it issues no backend
  write, and with at least one matching instance it returns the error-retry delay.
\<close>

theorem bad_sources_never_written:
  assumes bad: "length (GetSourceTypes e cr) \<noteq> 1"
  shows "fetchDashboardJson e cr h =
           (Inl (GoError ((if GetSourceTypes e cr = [] then ''no source type provided for dashboard ''
                           else ''more than one source types found for dashboard '') @ dName cr)), h) \<and>
         onDashboardCreated e grafana cr h =
           ((Return (Some (GoError ((if GetSourceTypes e cr = [] then ''no source type provided for dashboard ''
                           else ''more than one source types found for dashboard '') @ dName cr))), grafana, cr), h) \<and>
         (k8sGet e h (reqNamespace req) (reqName req) = Inr cr \<and> \<not> (reqNamespace req = [] \<and> reqName req = [])
            \<longrightarrow> filter isBackendWrite (snd (Reconcile lv e req h)) = filter isBackendWrite h \<and>
                (\<forall>sel instances. InstanceSelector cr = Some sel \<and>
                    getMatchingInstances e (h @ [CallGet (reqNamespace req) (reqName req)]) sel = Inr instances \<and>
                    instances \<noteq> []
                  \<longrightarrow> fst (Reconcile lv e req h) =
                        Return (\<lparr>Requeue = False, RequeueAfter = RequeueDelayError e\<rparr>, None)))"
proof (intro conjI impI)
  show "fetchDashboardJson e cr h =
           (Inl (GoError ((if GetSourceTypes e cr = [] then ''no source type provided for dashboard ''
                           else ''more than one source types found for dashboard '') @ dName cr)), h)"
    by (rule fetch_bad_sources[OF bad])
  show "onDashboardCreated e grafana cr h =
           ((Return (Some (GoError ((if GetSourceTypes e cr = [] then ''no source type provided for dashboard ''
                           else ''more than one source types found for dashboard '') @ dName cr))), grafana, cr), h)"
    by (rule created_bad_sources[OF bad])
next
  assume a: "k8sGet e h (reqNamespace req) (reqName req) = Inr cr \<and> \<not> (reqNamespace req = [] \<and> reqName req = [])"
  show "filter isBackendWrite (snd (Reconcile lv e req h)) = filter isBackendWrite h"
  proof (cases "InstanceSelector cr")
    case None
    with a show ?thesis by (auto simp: Reconcile_def Let_def)
  next
    case (Some sel)
    show ?thesis
    proof (cases "getMatchingInstances e (h @ [CallGet (reqNamespace req) (reqName req)]) sel")
      case (Inl err)
      with a Some show ?thesis by (auto simp: Reconcile_def Let_def)
    next
      case (Inr instances)
      from reconcileInstances_bad_sources[OF bad, of instances True
            "h @ [CallGet (reqNamespace req) (reqName req), CallGetMatchingInstances sel]"]
      obtain s h' where "reconcileInstances e instances cr True
            (h @ [CallGet (reqNamespace req) (reqName req), CallGetMatchingInstances sel]) = (Return (s, cr), h')"
        and "filter isBackendWrite h' = filter isBackendWrite h" by auto
      with a Some Inr show ?thesis by (auto simp: Reconcile_def Let_def)
    qed
  qed
  show "\<forall>sel instances. InstanceSelector cr = Some sel \<and>
                    getMatchingInstances e (h @ [CallGet (reqNamespace req) (reqName req)]) sel = Inr instances \<and>
                    instances \<noteq> []
                  \<longrightarrow> fst (Reconcile lv e req h) =
                        Return (\<lparr>Requeue = False, RequeueAfter = RequeueDelayError e\<rparr>, None)"
  proof (intro allI impI)
    fix sel instances
    assume b: "InstanceSelector cr = Some sel \<and>
                    getMatchingInstances e (h @ [CallGet (reqNamespace req) (reqName req)]) sel = Inr instances \<and>
                    instances \<noteq> []"
    from reconcileInstances_bad_sources[OF bad, of instances True
            "h @ [CallGet (reqNamespace req) (reqName req), CallGetMatchingInstances sel]"] b
    obtain h' where "reconcileInstances e instances cr True
            (h @ [CallGet (reqNamespace req) (reqName req), CallGetMatchingInstances sel]) = (Return (False, cr), h')"
      by auto
    with a b show "fst (Reconcile lv e req h) =
                        Return (\<lparr>Requeue = False, RequeueAfter = RequeueDelayError e\<rparr>, None)"
      by (auto simp: Reconcile_def Let_def)
  qed
qed


theorem bad_sources_never_written_witness:
  "onDashboardCreated noSourceEnv (instance_with ''a'' []) dashboardCR [] =
     ((Return (Some (GoError ''no source type provided for dashboard dash-0'')), instance_with ''a'' [], dashboardCR), []) \<and>
   onDashboardCreated twoSourcesEnv (instance_with ''a'' []) dashboardCR [] =
     ((Return (Some (GoError ''more than one source types found for dashboard dash-0'')),
       instance_with ''a'' [], dashboardCR), []) \<and>
   filter isBackendWrite (snd (Reconcile PerIteration noSourceEnv request [])) = [] \<and>
   fst (Reconcile PerIteration noSourceEnv request []) =
     Return (\<lparr>Requeue = False, RequeueAfter = 10000000000\<rparr>, None)"
proof -
  have b1: "length (GetSourceTypes noSourceEnv dashboardCR) \<noteq> 1"
    and b2: "length (GetSourceTypes twoSourcesEnv dashboardCR) \<noteq> 1"
    by (simp_all add: noSourceEnv_def twoSourcesEnv_def quietEnv_def)
  have g: "k8sGet noSourceEnv [] (reqNamespace request) (reqName request) = Inr dashboardCR"
    and nz: "\<not> (reqNamespace request = [] \<and> reqName request = [])"
    and sel: "InstanceSelector dashboardCR = Some [(''dashboards'', ''grafana'')]"
    and m: "getMatchingInstances noSourceEnv ([] @ [CallGet (reqNamespace request) (reqName request)])
              [(''dashboards'', ''grafana'')] = Inr [instance_with ''a'' []]"
    and d: "RequeueDelayError noSourceEnv = 10000000000"
    and s1: "GetSourceTypes noSourceEnv dashboardCR = []"
    and s2: "GetSourceTypes twoSourcesEnv dashboardCR \<noteq> []"
    and n: "dName dashboardCR = ''dash-0''"
    by (simp_all add: noSourceEnv_def twoSourcesEnv_def quietEnv_def request_def dashboardCR_def)
  from bad_sources_never_written[OF b1, of "[]" "instance_with ''a'' []" request PerIteration]
       bad_sources_never_written[OF b2, of "[]" "instance_with ''a'' []" request PerIteration]
       g nz sel m d s1 s2 n
  show ?thesis by simp
qed

section \<open>The deletion handler and a missing backend dashboard\<close>

text \<open>
  C3. The deletion handler is meant to tolerate a 404 answer to the lookup and to the
  deletion of the backend dashboard. After a tolerated lookup error it reads
  \<^verbatim>\<open>dash.Folder\<close>, and the client returns the \<^verbatim>\<open>nil\<close> pointer with its error: the handler
  panics before it deletes, removes the tracked entry or writes the instance status.
\<close>

theorem deletion_handler_panics_on_404:
  "onDashboardDeleted deletedEnv404 ''monitoring'' ''dash-0'' [] =
     (Panic ''invalid memory address or nil pointer dereference'',
      [CallListGrafanas, CallNewGrafanaClient (instance_with ''a'' [tracked 0]),
       CallDashboardByUID (Client ''a'') ''uid-0''])"
  by (simp add: onDashboardDeleted_def deleteFromInstance_def deleteDashboardAndFolder_def
        deletedEnv404_def quietEnv_def instance_with_def tracked_def err404_def digitChar_def)

text \<open>
  Had the lookup returned a dashboard together with its 404 error, the body of the loop
  would run to its end, provided folder cleanup, plugin reconciliation and the status
  write succeed.
\<close>

lemma deletion_tolerates_404_with_dashboard:
  assumes client: "newGrafanaClient e h grafana = Inr c"
    and get: "apiDashboardByUID e (h @ [CallNewGrafanaClient grafana]) c uid = (Some d, Some gerr)"
    and g404: "Contains (Error gerr) ''status: 404''"
    and del: "apiDeleteDashboardByUID e (h @ [CallNewGrafanaClient grafana, CallDashboardByUID c uid]) c uid = Some derr"
    and d404: "Contains (Error derr) ''status: 404''"
    and folder: "DeleteFolderIfEmpty e c (Folder d)
        (h @ [CallNewGrafanaClient grafana, CallDashboardByUID c uid, CallDeleteDashboardByUID c uid]) = ((resp, None), h2)"
    and plugins: "reconcilePlugins e h2 grafana [] (name @ ''-dashboard'') = None"
    and update: "k8sStatusUpdateGrafana e (h2 @ [CallReconcilePlugins grafana [] (name @ ''-dashboard'')])
        (grafana\<lparr>Dashboards := Remove (Dashboards grafana) namespace name\<rparr>) = None"
  shows "deleteFromInstance e namespace name grafana uid h =
     (Inr (), h2 @ [CallReconcilePlugins grafana [] (name @ ''-dashboard''),
                    CallStatusUpdateGrafana (grafana\<lparr>Dashboards := Remove (Dashboards grafana) namespace name\<rparr>)])"
  using g404 d404
  by (simp add: deleteFromInstance_def deleteDashboardAndFolder_def client get del folder plugins update Let_def)


section \<open>Partial failure in Reconcile\<close>

lemma Find_Remove: "Find (Remove ds namespace name) namespace name = None"
  by (induction ds) (simp_all add: Remove_def)

lemma Find_append:
  "Find (xs @ ys) namespace name =
     (case Find xs namespace name of None \<Rightarrow> Find ys namespace name | Some uid \<Rightarrow> Some uid)"
  by (induction xs) simp_all

lemma Find_Add: "Find (Add ds namespace name uid) namespace name = Some uid"
  by (simp add: Add_def Find_append Find_Remove)

lemma addsEntry_other [simp]:
  "addsEntry gs CallListGrafanas" "addsEntry gs CallListDashboards" "addsEntry gs (CallGet ns n)"
  "addsEntry gs (CallGetMatchingInstances sel)" "addsEntry gs (CallReconcilePlugins g ps t)"
  "addsEntry gs (CallNewGrafanaClient g)" "addsEntry gs (CallFetchDashboardFromUrl d)"
  "addsEntry gs (CallDashboards c)" "addsEntry gs (CallDashboardByUID c u)"
  "addsEntry gs (CallNewDashboard c b)" "addsEntry gs (CallDeleteDashboardByUID c u)"
  "addsEntry gs (CallFolders c)" "addsEntry gs (CallNewFolder c t)" "addsEntry gs (CallDeleteFolder c i)"
  "addsEntry gs (CallStatusUpdateDashboard d)"
  by (simp_all add: addsEntry_def)

lemma addsEntry_Add:
  "g \<in> set gs \<Longrightarrow>
     addsEntry gs (CallStatusUpdateGrafana (g\<lparr>Dashboards := Add (Dashboards g) namespace name uid\<rparr>))"
  unfolding addsEntry_def using Find_Add by fastforce

lemma addsEntry_mono: "addsEntry gs ev \<Longrightarrow> set gs \<subseteq> set gs' \<Longrightarrow> addsEntry gs' ev"
  by (cases ev) (auto simp: addsEntry_def)

lemma GetOrCreateFolder_events:
  "GetOrCreateFolder e c cr h = (r, h') \<Longrightarrow>
     \<exists>evs. h' = h @ evs \<and> (\<forall>ev \<in> set evs. \<not> isDeleteDashboard ev \<and> addsEntry gs ev)"
  by (auto simp: GetOrCreateFolder_def GetFolderID_def split: if_splits sum.splits)

lemma writeDashboard_events:
  assumes "writeDashboard e c js g cr h = (r, h')"
  shows "\<exists>evs. h' = h @ evs \<and> (\<forall>ev \<in> set evs. \<not> isDeleteDashboard ev \<and> addsEntry [g] ev)"
proof (cases "jsonUnmarshal e js")
  case (Inl err)
  with assms show ?thesis by (simp add: writeDashboard_def)
next
  case (Inr m)
  obtain fr h1 where f: "GetOrCreateFolder e c cr h = (fr, h1)" by (cases "GetOrCreateFolder e c cr h")
  from GetOrCreateFolder_events[OF f, of "[g]"] obtain evs1 where
    h1: "h1 = h @ evs1" and e1: "\<forall>ev \<in> set evs1. \<not> isDeleteDashboard ev \<and> addsEntry [g] ev" by blast
  have a: "addsEntry [g] (CallStatusUpdateGrafana (g\<lparr>Dashboards := Add (Dashboards g) ns n u\<rparr>))" for ns n u
    by (rule addsEntry_Add) simp
  from assms Inr f h1 e1 a show ?thesis
    by (auto simp: writeDashboard_def UpdateStatus_def Let_def
          split: sum.splits option.splits if_splits prod.splits)
qed

lemma onDashboardCreated_events:
  assumes "onDashboardCreated e g cr h = (r, h')"
  shows "\<exists>evs. h' = h @ evs \<and> (\<forall>ev \<in> set evs. \<not> isDeleteDashboard ev \<and> addsEntry [g] ev)"
proof -
  obtain fr h1 where f: "fetchDashboardJson e cr h = (fr, h1)" by (cases "fetchDashboardJson e cr h")
  from fetch_history[OF f] have h1: "\<exists>evs. h1 = h @ evs \<and> (\<forall>ev \<in> set evs. \<not> isDeleteDashboard ev \<and> addsEntry [g] ev)"
    by auto
  show ?thesis
  proof (cases fr)
    case (Inl err)
    with assms f h1 show ?thesis by (auto simp: onDashboardCreated_def)
  next
    case (Inr js)
    show ?thesis
    proof (cases "newGrafanaClient e h1 g")
      case (Inl err)
      with assms f h1 \<open>fr = Inr js\<close> show ?thesis by (auto simp: onDashboardCreated_def)
    next
      case c: (Inr c)
      show ?thesis
      proof (cases "apiDashboards e (h1 @ [CallNewGrafanaClient g]) c")
        case (Inl err)
        with assms f h1 \<open>fr = Inr js\<close> c show ?thesis by (auto simp: onDashboardCreated_def Exists_def)
      next
        case l: (Inr ds)
        show ?thesis
        proof (cases "hasUID ds (UID cr) \<and> Unchanged e (cr\<lparr>Json := js\<rparr>)")
          case True
          with assms f h1 \<open>fr = Inr js\<close> c l show ?thesis by (auto simp: onDashboardCreated_def Exists_def)
        next
          case False
          with assms f \<open>fr = Inr js\<close> c l
          have w: "writeDashboard e c js g (cr\<lparr>Json := js\<rparr>) (h1 @ [CallNewGrafanaClient g, CallDashboards c]) = (r, h')"
            by (auto simp: onDashboardCreated_def Exists_def)
          from writeDashboard_events[OF w] h1 show ?thesis by auto
        qed
      qed
    qed
  qed
qed

lemma reconcileInstances_events:
  "reconcileInstances e xs d s h = (r, h') \<Longrightarrow>
     \<exists>evs. h' = h @ evs \<and> (\<forall>ev \<in> set evs. \<not> isDeleteDashboard ev \<and> addsEntry xs ev)"
proof (induction xs arbitrary: d s h)
  case Nil
  then show ?case by simp
next
  case (Cons g gs)
  have mono: "addsEntry gs ev \<Longrightarrow> addsEntry (g # gs) ev" "addsEntry [g] ev \<Longrightarrow> addsEntry (g # gs) ev" for ev
    by (erule addsEntry_mono, auto)+
  show ?case
  proof (cases "Stage g \<noteq> OperatorStageComplete \<or> StageStatus g \<noteq> OperatorStageResultSuccess")
    case True
    with Cons.prems have "reconcileInstances e gs d False h = (r, h')" by auto
    from Cons.IH[OF this] mono show ?thesis by blast
  next
    case False
    define h1 where "h1 = h @ [CallReconcilePlugins g (Plugins d) (dName d @ ''-dashboard'')]"
    obtain cr g' d' h2 where c: "onDashboardCreated e g d h1 = ((cr, g', d'), h2)"
      by (metis prod.exhaust)
    from onDashboardCreated_events[OF c] obtain evs1 where
      h2: "h2 = h1 @ evs1" and e1: "\<forall>ev \<in> set evs1. \<not> isDeleteDashboard ev \<and> addsEntry [g] ev" by blast
    show ?thesis
    proof (cases cr)
      case (Panic p)
      with Cons.prems False c have "h' = h2" by (simp add: h1_def Let_def)
      with h2 e1 mono show ?thesis by (auto simp: h1_def)
    next
      case (Return err)
      with Cons.prems False c obtain s' where "reconcileInstances e gs d' s' h2 = (r, h')"
        by (cases err) (auto simp: h1_def Let_def)
      from Cons.IH[OF this] obtain evs2 where
        "h' = h2 @ evs2" and "\<forall>ev \<in> set evs2. \<not> isDeleteDashboard ev \<and> addsEntry gs ev" by blast
      with h2 e1 mono show ?thesis by (auto simp: h1_def)
    qed
  qed
qed

lemma reconcileInstances_append:
  "reconcileInstances e (xs @ ys) d s h =
     (case reconcileInstances e xs d s h of
        (Panic p, h1) \<Rightarrow> (Panic p, h1)
      | (Return (s1, d1), h1) \<Rightarrow> reconcileInstances e ys d1 s1 h1)"
proof (induction xs arbitrary: d s h)
  case Nil
  then show ?case by simp
next
  case (Cons g gs)
  show ?case
    by (simp add: Cons.IH Let_def split: prod.splits exec.splits option.splits)
qed

lemma reconcileInstances_False:
  "reconcileInstances e xs d False h = (Return (s', d'), h') \<Longrightarrow> \<not> s'"
proof (induction xs arbitrary: d h)
  case Nil
  then show ?case by simp
next
  case (Cons g gs)
  then show ?case
    by (auto simp: Let_def split: if_splits prod.splits exec.splits option.splits)
qed

lemma reconcileInstances_failing:
  assumes fails: "\<not> instanceSucceeds e g d h"
    and run: "reconcileInstances e (g # gs) d s h = (Return (s', d'), h')"
  shows "\<not> s'"
proof (cases "Stage g \<noteq> OperatorStageComplete \<or> StageStatus g \<noteq> OperatorStageResultSuccess")
  case True
  with run have "reconcileInstances e gs d False h = (Return (s', d'), h')" by auto
  then show ?thesis by (rule reconcileInstances_False)
next
  case False
  define h1 where "h1 = h @ [CallReconcilePlugins g (Plugins d) (dName d @ ''-dashboard'')]"
  obtain cr g1 d1 h2 where c: "onDashboardCreated e g d h1 = ((cr, g1, d1), h2)"
    by (metis prod.exhaust)
  show ?thesis
  proof (cases cr)
    case (Panic p)
    with run False c show ?thesis by (simp add: h1_def Let_def)
  next
    case (Return err)
    show ?thesis
    proof (cases err)
      case (Some er)
      with run False c Return have "reconcileInstances e gs d1 False h2 = (Return (s', d'), h')"
        by (simp add: h1_def Let_def)
      then show ?thesis by (rule reconcileInstances_False)
    next
      case None
      with fails False c Return have "reconcilePlugins e h g (Plugins d) (dName d @ ''-dashboard'') \<noteq> None"
        by (auto simp: instanceSucceeds_def h1_def)
      with run False c Return None have "reconcileInstances e gs d1 False h2 = (Return (s', d'), h')"
        by (auto simp: h1_def Let_def)
      then show ?thesis by (rule reconcileInstances_False)
    qed
  qed
qed


text \<open>
  C7. Let \<^verbatim>\<open>Reconcile\<close> load a dashboard resource, find matching instances and return.
  If one of the instances fails when its turn comes (it is not ready, plugin
  reconciliation returns an error, or \<^verbatim>\<open>onDashboardCreated\<close> returns an error), the outcome is
  \<^verbatim>\<open>RequeueAfter: RequeueDelayError\<close> with no error, not the resync period. What was
  written for the other instances is kept: the history reached after any prefix of the
  instances is a prefix of the final history, no dashboard deletion is issued, and every
  instance status written adds the entry of the tracked list it was written for.
\<close>

theorem partial_failure_schedules_error_retry:
  assumes run: "fst (Reconcile lv e req h) = Return out"
    and req: "\<not> (reqNamespace req = [] \<and> reqName req = [])"
    and get: "k8sGet e h (reqNamespace req) (reqName req) = Inr dashboard"
    and sel: "InstanceSelector dashboard = Some instanceSelector"
    and matching: "getMatchingInstances e (h @ [CallGet (reqNamespace req) (reqName req)]) instanceSelector
                     = Inr instances"
    and split: "instances = pre @ grafana # post"
    and before: "reconcileInstances e pre dashboard True
                   (h @ [CallGet (reqNamespace req) (reqName req), CallGetMatchingInstances instanceSelector])
                     = (Return (s1, d1), h1)"
    and fails: "\<not> instanceSucceeds e grafana d1 h1"
  shows "out = (\<lparr>Requeue = False, RequeueAfter = RequeueDelayError e\<rparr>, None) \<and>
         (\<forall>xs ys. instances = xs @ ys \<longrightarrow>
            (\<exists>evs. snd (Reconcile lv e req h) =
               snd (reconcileInstances e xs dashboard True
                     (h @ [CallGet (reqNamespace req) (reqName req), CallGetMatchingInstances instanceSelector]))
               @ evs)) \<and>
         filter isDeleteDashboard (snd (Reconcile lv e req h)) = filter isDeleteDashboard h \<and>
         (\<forall>ev \<in> set (drop (length h) (snd (Reconcile lv e req h))). addsEntry instances ev)"
proof -
  define h2 where "h2 = h @ [CallGet (reqNamespace req) (reqName req), CallGetMatchingInstances instanceSelector]"
  from split have ne: "instances \<noteq> []" by simp
  obtain r h3 where loop: "reconcileInstances e instances dashboard True h2 = (r, h3)"
    by (cases "reconcileInstances e instances dashboard True h2")
  have rec: "Reconcile lv e req h =
      (case r of Panic p \<Rightarrow> (Panic p, h3)
       | Return (success, dashboard') \<Rightarrow>
           if success
           then (Return (\<lparr>Requeue = False, RequeueAfter = GetResyncPeriod e dashboard'\<rparr>, None), h3)
           else (Return (\<lparr>Requeue = False, RequeueAfter = RequeueDelayError e\<rparr>, None), h3))"
    using req ne loop
    by (auto simp: Reconcile_def get sel matching Let_def h2_def split: exec.splits)
  from run rec obtain success d' where r: "r = Return (success, d')"
    by (cases r) auto
  have h3: "snd (Reconcile lv e req h) = h3"
    using rec r by simp
  from loop r split before
  have "reconcileInstances e (grafana # post) d1 s1 h1 = (Return (success, d'), h3)"
    by (simp add: reconcileInstances_append h2_def)
  from reconcileInstances_failing[OF fails this] have "\<not> success" .
  with run rec r have out: "out = (\<lparr>Requeue = False, RequeueAfter = RequeueDelayError e\<rparr>, None)"
    by simp
  have prefix: "\<exists>evs. h3 = snd (reconcileInstances e xs dashboard True h2) @ evs" if "instances = xs @ ys" for xs ys
  proof -
    obtain rx hx where x: "reconcileInstances e xs dashboard True h2 = (rx, hx)"
      by (cases "reconcileInstances e xs dashboard True h2")
    show ?thesis
    proof (cases rx)
      case (Panic p)
      with loop r that x show ?thesis by (simp add: reconcileInstances_append)
    next
      case (Return sd)
      obtain sx dx where "sd = (sx, dx)" by (cases sd)
      with loop that x Return have "reconcileInstances e ys dx sx hx = (r, h3)"
        by (simp add: reconcileInstances_append)
      from reconcileInstances_events[OF this] x show ?thesis by auto
    qed
  qed
  from reconcileInstances_events[OF loop] obtain evs where
    evs: "h3 = h2 @ evs" and ok: "\<forall>ev \<in> set evs. \<not> isDeleteDashboard ev \<and> addsEntry instances ev" by blast
  have nodel: "filter isDeleteDashboard h3 = filter isDeleteDashboard h"
    using evs ok by (simp add: h2_def filter_empty_conv)
  have adds: "\<forall>ev \<in> set (drop (length h) h3). addsEntry instances ev"
    using evs ok by (auto simp: h2_def)
  from out prefix nodel adds show ?thesis
    unfolding h3 h2_def by blast
qed


lemmas eval_defs = Reconcile_def partialEnv_def quietEnv_def request_def dashboardCR_def instance_with_def
  onDashboardCreated_def fetchDashboardJson_def Exists_def Unchanged_def writeDashboard_def
  GetOrCreateFolder_def GetFolderID_def UpdateStatus_def Add_def Remove_def Let_def instanceSucceeds_def

theorem partial_failure_schedules_error_retry_witness:
  "fst (Reconcile PerIteration partialEnv request []) =
     Return (\<lparr>Requeue = False, RequeueAfter = 10000000000\<rparr>, None) \<and>
   CallStatusUpdateGrafana
     (instance_with ''a'' [\<lparr>nrNamespace = ''monitoring'', nrName = ''dash-0'', nrUID = ''uid-0''\<rparr>])
     \<in> set (snd (Reconcile PerIteration partialEnv request [])) \<and>
   filter isDeleteDashboard (snd (Reconcile PerIteration partialEnv request [])) = []"
proof -
  have run: "\<exists>out. fst (Reconcile PerIteration partialEnv request []) = Return out"
    by (simp add: eval_defs)
  then obtain out where out: "fst (Reconcile PerIteration partialEnv request []) = Return out" ..
  have req: "\<not> (reqNamespace request = [] \<and> reqName request = [])"
    by (simp add: request_def)
  have get: "k8sGet partialEnv [] (reqNamespace request) (reqName request) = Inr dashboardCR"
    by (simp add: partialEnv_def quietEnv_def)
  have sel: "InstanceSelector dashboardCR = Some [(''dashboards'', ''grafana'')]"
    by (simp add: dashboardCR_def)
  have matching: "getMatchingInstances partialEnv ([] @ [CallGet (reqNamespace request) (reqName request)])
      [(''dashboards'', ''grafana'')] = Inr [instance_with ''a'' [], instance_with ''b'' []]"
    by (simp add: partialEnv_def quietEnv_def)
  have split: "[instance_with ''a'' [], instance_with ''b'' []] = [instance_with ''a'' []] @ instance_with ''b'' [] # []"
    by simp
  have "\<exists>s1 d1 h1. reconcileInstances partialEnv [instance_with ''a'' []] dashboardCR True
           ([] @ [CallGet (reqNamespace request) (reqName request),
                  CallGetMatchingInstances [(''dashboards'', ''grafana'')]]) = (Return (s1, d1), h1) \<and>
        \<not> instanceSucceeds partialEnv (instance_with ''b'' []) d1 h1"
    by (auto simp: eval_defs)
  then obtain s1 d1 h1 where
    before: "reconcileInstances partialEnv [instance_with ''a'' []] dashboardCR True
           ([] @ [CallGet (reqNamespace request) (reqName request),
                  CallGetMatchingInstances [(''dashboards'', ''grafana'')]]) = (Return (s1, d1), h1)"
    and fails: "\<not> instanceSucceeds partialEnv (instance_with ''b'' []) d1 h1" by blast
  have d: "RequeueDelayError partialEnv = 10000000000"
    by (simp add: partialEnv_def quietEnv_def)
  have kept: "CallStatusUpdateGrafana
     (instance_with ''a'' [\<lparr>nrNamespace = ''monitoring'', nrName = ''dash-0'', nrUID = ''uid-0''\<rparr>])
     \<in> set (snd (Reconcile PerIteration partialEnv request []))"
    by (simp add: eval_defs)
  from partial_failure_schedules_error_retry[OF out req get sel matching split before fails] out d kept
  show ?thesis by simp
qed

end
